theory Spec2Isabelle
  imports Complex_Main "HOL-Library.Word" "HOL-Library.Log_Nat"
begin

section \<open>IEEE 754 arithmetic as the source uses it\<close>

text \<open>
  The source computes with \<^verbatim>\<open>float\<close> (binary32) and \<^verbatim>\<open>double\<close> (binary64). A value
  of either type is modelled by \<open>fp\<close>: a finite rational, an infinity or NaN. Every
  arithmetic operation computes the exact rational result and rounds it to the nearest
  representable value, ties to even (the default rounding mode), with gradual underflow
  and overflow to infinity. The two zeros are identified: no operation of this file
  tells them apart (the only divisors are conversions of unsigned integers).
\<close>

datatype fp = Finite rat | PInf | NInf | NaN

text \<open>\<open>ilog2 q\<close> is the binary exponent of a positive rational: \<open>2 ^ ilog2 q \<le> q < 2 ^ (ilog2 q + 1)\<close>.\<close>

definition ilog2 :: "rat \<Rightarrow> int" where
  "ilog2 q = (if 1 \<le> q then bitlen \<lfloor>q\<rfloor> - 1 else - bitlen (\<lceil>1 / q\<rceil> - 1))"

text \<open>Round to the nearest integer, ties to even.\<close>

definition rne :: "rat \<Rightarrow> int" where
  "rne m = (let f = \<lfloor>m\<rfloor>; r = m - of_int f
            in if r < 1 / 2 then f else if 1 / 2 < r then f + 1
               else if even f then f else f + 1)"

text \<open>
  \<open>rnd p emax q\<close> rounds \<open>q\<close> to the format with \<open>p\<close> significand bits and largest
  exponent \<open>emax\<close>: the spacing of representable values near \<open>q\<close> is \<open>2 ^ ue\<close>, never
  finer than the subnormal spacing \<open>2 ^ (2 - emax - p)\<close>, and a rounded value whose
  exponent exceeds \<open>emax\<close> overflows.
\<close>

definition rnd :: "int \<Rightarrow> int \<Rightarrow> rat \<Rightarrow> fp" where
  "rnd p emax q =
     (if q = 0 then Finite 0
      else let e = ilog2 \<bar>q\<bar>;
               ue = max (e - (p - 1)) (2 - emax - p);
               r = of_int (rne (q / 2 powi ue)) * 2 powi ue
           in if r \<noteq> 0 \<and> emax < ilog2 \<bar>r\<bar> then (if 0 < q then PInf else NInf)
              else Finite r)"

definition rnd32 :: "rat \<Rightarrow> fp" where
  "rnd32 = rnd 24 127"

definition rnd64 :: "rat \<Rightarrow> fp" where
  "rnd64 = rnd 53 1023"

text \<open>A \<^verbatim>\<open>float\<close> is an \<open>fp\<close> that binary32 represents.\<close>

fun is_float :: "fp \<Rightarrow> bool" where
  "is_float (Finite q) = (rnd32 q = Finite q)"
| "is_float _ = True"

text \<open>Literals: \<^verbatim>\<open>1.5\<close> is a double, \<^verbatim>\<open>.5f\<close> a float.\<close>

definition dlit :: "rat \<Rightarrow> fp" where
  "dlit q = rnd64 q"

definition flit :: "rat \<Rightarrow> fp" where
  "flit q = rnd32 q"

text \<open>Conversion of a double to float rounds; of a float to double is exact.\<close>

fun f32_of_f64 :: "fp \<Rightarrow> fp" where
  "f32_of_f64 (Finite q) = rnd32 q"
| "f32_of_f64 x = x"

definition FLT_MAX :: fp where
  "FLT_MAX = Finite ((2 ^ 24 - 1) * 2 ^ 104)"

fun fsub :: "(rat \<Rightarrow> fp) \<Rightarrow> fp \<Rightarrow> fp \<Rightarrow> fp" where
  "fsub r NaN y = NaN"
| "fsub r x NaN = NaN"
| "fsub r (Finite a) (Finite b) = r (a - b)"
| "fsub r (Finite a) PInf = NInf"
| "fsub r (Finite a) NInf = PInf"
| "fsub r PInf PInf = NaN"
| "fsub r PInf y = PInf"
| "fsub r NInf NInf = NaN"
| "fsub r NInf y = NInf"

fun fmul :: "(rat \<Rightarrow> fp) \<Rightarrow> fp \<Rightarrow> fp \<Rightarrow> fp" where
  "fmul r NaN y = NaN"
| "fmul r x NaN = NaN"
| "fmul r (Finite a) (Finite b) = r (a * b)"
| "fmul r (Finite a) PInf = (if a = 0 then NaN else if 0 < a then PInf else NInf)"
| "fmul r (Finite a) NInf = (if a = 0 then NaN else if 0 < a then NInf else PInf)"
| "fmul r PInf (Finite b) = (if b = 0 then NaN else if 0 < b then PInf else NInf)"
| "fmul r NInf (Finite b) = (if b = 0 then NaN else if 0 < b then NInf else PInf)"
| "fmul r PInf PInf = PInf"
| "fmul r PInf NInf = NInf"
| "fmul r NInf PInf = NInf"
| "fmul r NInf NInf = PInf"

text \<open>Division; a zero divisor is the positive zero.\<close>

fun fdiv :: "(rat \<Rightarrow> fp) \<Rightarrow> fp \<Rightarrow> fp \<Rightarrow> fp" where
  "fdiv r NaN y = NaN"
| "fdiv r x NaN = NaN"
| "fdiv r (Finite a) (Finite b) =
     (if b = 0 then (if a = 0 then NaN else if 0 < a then PInf else NInf) else r (a / b))"
| "fdiv r (Finite a) y = Finite 0"
| "fdiv r PInf (Finite b) = (if 0 \<le> b then PInf else NInf)"
| "fdiv r NInf (Finite b) = (if 0 \<le> b then NInf else PInf)"
| "fdiv r x y = NaN"

fun fabs :: "fp \<Rightarrow> fp" where
  "fabs (Finite q) = Finite \<bar>q\<bar>"
| "fabs PInf = PInf"
| "fabs NInf = PInf"
| "fabs NaN = NaN"

text \<open>Comparisons: every comparison with NaN is false.\<close>

fun flt :: "fp \<Rightarrow> fp \<Rightarrow> bool" where
  "flt NaN y = False"
| "flt x NaN = False"
| "flt (Finite a) (Finite b) = (a < b)"
| "flt (Finite a) PInf = True"
| "flt (Finite a) NInf = False"
| "flt PInf y = False"
| "flt NInf NInf = False"
| "flt NInf y = True"

fun feq :: "fp \<Rightarrow> fp \<Rightarrow> bool" where
  "feq NaN y = False"
| "feq x NaN = False"
| "feq x y = (x = y)"

definition fgt :: "fp \<Rightarrow> fp \<Rightarrow> bool" where
  "fgt x y = flt y x"

definition fge :: "fp \<Rightarrow> fp \<Rightarrow> bool" where
  "fge x y = (flt y x \<or> feq x y)"

type_synonym u32 = "32 word"

definition f32_of_u32 :: "u32 \<Rightarrow> fp" where
  "f32_of_u32 w = rnd32 (of_nat (unat w))"

definition f64_of_u32 :: "u32 \<Rightarrow> fp" where
  "f64_of_u32 w = rnd64 (of_nat (unat w))"

datatype abort = Runtime_Error string | Out_Of_Bounds_Read nat | Lround_Out_Of_Range | Null_Pointer

text \<open>
  \<^verbatim>\<open>std::lround\<close> rounds half away from zero. Its result is unspecified when the argument
  is not finite or the rounded value does not fit \<^verbatim>\<open>long\<close> (32 bits on the Windows target
  of this module): the model stops there with \<open>Lround_Out_Of_Range\<close>.
\<close>

fun lround :: "fp \<Rightarrow> int option" where
  "lround (Finite q) =
     (let r = (if 0 \<le> q then \<lfloor>q + 1 / 2\<rfloor> else - \<lfloor>- q + 1 / 2\<rfloor>)
      in if - (2 ^ 31) \<le> r \<and> r < 2 ^ 31 then Some r else None)"
| "lround x = None"

definition u32_of_long :: "int \<Rightarrow> u32" where
  "u32_of_long l = word_of_int l"

text \<open>\<^verbatim>\<open>std::clamp(v, lo, hi)\<close> is \<^verbatim>\<open>(v < lo) ? lo : (hi < v) ? hi : v\<close>.\<close>

definition clamp_float :: "fp \<Rightarrow> fp \<Rightarrow> fp \<Rightarrow> fp" where
  "clamp_float v lo hi = (if flt v lo then lo else if flt hi v then hi else v)"

definition clamp_u32 :: "u32 \<Rightarrow> u32 \<Rightarrow> u32 \<Rightarrow> u32" where
  "clamp_u32 v lo hi = (if v < lo then lo else if hi < v then hi else v)"

text \<open>
  Modelled from the spec: \<^verbatim>\<open>::streamfx::util::math::is_close\<close> is declared in
  \<^verbatim>\<open>util/utility.hpp\<close>, which is not part of the sources at hand. The spec reads
  \<^verbatim>\<open>!is_close(a, b, d)\<close> as "a differs from b by more than d" and \<^verbatim>\<open>is_close(a, b, d)\<close>
  as "a equals b within d".
\<close>

fun is_close :: "fp \<Rightarrow> fp \<Rightarrow> fp \<Rightarrow> bool" where
  "is_close (Finite t) (Finite v) (Finite d) = (\<bar>t - v\<bar> \<le> d)"
| "is_close t v d = False"

section \<open>Facts about rounding\<close>

lemma rne_of_int: "rne (of_int k) = k"
  by (simp add: rne_def)

lemma rne_ge: "of_int N \<le> m \<Longrightarrow> N \<le> rne m"
proof -
  assume "of_int N \<le> m"
  then have "N \<le> \<lfloor>m\<rfloor>" by (simp add: le_floor_iff)
  then show ?thesis unfolding rne_def Let_def by auto
qed

lemma rne_le: "m \<le> of_int N \<Longrightarrow> rne m \<le> N"
proof (cases "m = of_int N")
  case True then show ?thesis by (simp add: rne_of_int)
next
  case False
  assume "m \<le> of_int N"
  with False have "m < of_int N" by simp
  then have "\<lfloor>m\<rfloor> < N" by (simp add: floor_less_iff)
  then show ?thesis unfolding rne_def Let_def by auto
qed

lemma bitlen_pos_bounds:
  assumes "1 \<le> n"
  shows "1 \<le> bitlen n" "(2::rat) powi (bitlen n - 1) \<le> of_int n" "of_int n + 1 \<le> (2::rat) powi bitlen n"
proof -
  have n: "0 < n" using assms by simp
  have b: "2 ^ nat (bitlen n - 1) \<le> n" "n < 2 ^ nat (bitlen n)" using bitlen_bounds[OF n] by simp_all
  show l: "1 \<le> bitlen n" using n bitlen_eq_zero_iff[of n] bitlen_nonneg[of n] by simp
  have "(of_int (2 ^ nat (bitlen n - 1)) :: rat) \<le> of_int n" using b(1) by (simp only: of_int_le_iff)
  then show "(2::rat) powi (bitlen n - 1) \<le> of_int n" using l by (simp add: power_int_def)
  have "n + 1 \<le> 2 ^ nat (bitlen n)" using b(2) by simp
  then have "(of_int (n + 1) :: rat) \<le> of_int (2 ^ nat (bitlen n))" by (simp only: of_int_le_iff)
  then show "of_int n + 1 \<le> (2::rat) powi bitlen n" using l by (simp add: power_int_def)
qed

lemma ilog2_bounds:
  assumes "0 < q"
  shows "2 powi (ilog2 q) \<le> q \<and> q < 2 powi (ilog2 q + 1)"
proof (cases "1 \<le> q")
  case True
  define n where "n = \<lfloor>q\<rfloor>"
  have n: "1 \<le> n" using True by (simp add: n_def le_floor_iff)
  have il: "ilog2 q = bitlen n - 1" using True by (simp add: ilog2_def n_def)
  have "of_int n \<le> q" "q < of_int n + 1" unfolding n_def by linarith+
  with bitlen_pos_bounds[OF n] show ?thesis by (simp add: il)
next
  case False
  define x where "x = 1 / q"
  define k where "k = \<lceil>x\<rceil> - 1"
  have x: "1 < x" using False assms by (simp add: x_def)
  have q: "q = 1 / x" by (simp add: x_def)
  have "1 < \<lceil>x\<rceil>" using x by (simp add: less_ceiling_iff)
  then have k: "1 \<le> k" by (simp add: k_def)
  have il: "ilog2 q = - bitlen k" using False by (simp add: ilog2_def k_def x_def)
  have kx: "of_int k < x" "x \<le> of_int k + 1"
    by (simp_all add: k_def) (use ceiling_correct[of x] in linarith)+
  note b = bitlen_pos_bounds[OF k]
  have up: "x \<le> 2 powi bitlen k" using kx(2) b(3) by simp
  have lo: "2 powi (bitlen k - 1) < x" using kx(1) b(2) by simp
  have p1: "(0::rat) < 2 powi bitlen k" "(0::rat) < 2 powi (bitlen k - 1)" by simp_all
  have "1 / 2 powi bitlen k \<le> 1 / x" using up x by (simp add: frac_le)
  then have A: "2 powi (- bitlen k) \<le> q" by (simp add: q power_int_minus_divide)
  have "1 / x < 1 / 2 powi (bitlen k - 1)" using lo p1(2) by (simp add: frac_less2)
  then have B: "q < 2 powi (- bitlen k + 1)"
    using power_int_minus_divide[of "2::rat" "bitlen k - 1"] by (simp add: q)
  show ?thesis using A B by (simp add: il)
qed

lemma ilog2_less: "0 < q \<Longrightarrow> q < 2 powi n \<Longrightarrow> ilog2 q < n"
proof (rule ccontr)
  assume q: "0 < q" "q < 2 powi n" and "\<not> ilog2 q < n"
  then have "n \<le> ilog2 q" by simp
  then have "(2::rat) powi n \<le> 2 powi ilog2 q" by (simp add: power_int_increasing)
  with ilog2_bounds[OF q(1)] q(2) show False by simp
qed

lemma ilog2_ge: "0 < q \<Longrightarrow> 2 powi n \<le> q \<Longrightarrow> n \<le> ilog2 q"
proof (rule ccontr)
  assume q: "0 < q" "2 powi n \<le> q" and "\<not> n \<le> ilog2 q"
  then have "ilog2 q + 1 \<le> n" by simp
  then have "(2::rat) powi (ilog2 q + 1) \<le> 2 powi n" by (simp add: power_int_increasing)
  with ilog2_bounds[OF q(1)] q(2) show False by simp
qed

lemma rnd_exact:
  assumes q: "q = of_int k * 2 powi u" and k: "\<bar>k\<bar> < 2 ^ nat p" and p: "0 < p"
    and u: "2 - emax - p \<le> u" and r: "\<bar>q\<bar> < 2 powi (emax + 1)"
  shows "rnd p emax q = Finite q"
proof (cases "q = 0")
  case True then show ?thesis by (simp add: rnd_def)
next
  case False
  define e where "e = ilog2 \<bar>q\<bar>"
  define ue where "ue = max (e - (p - 1)) (2 - emax - p)"
  have qpos: "0 < \<bar>q\<bar>" using False by simp
  have "\<bar>q\<bar> = of_int \<bar>k\<bar> * 2 powi u" by (simp add: q abs_mult)
  also have "\<dots> < of_int (2 ^ nat p) * 2 powi u"
    using k by (simp only: of_int_less_iff mult_less_cancel_right_pos zero_less_power_int zero_less_numeral)
  also have "\<dots> = 2 powi (p + u)"
  proof -
    have "(of_int (2 ^ nat p) :: rat) = 2 powi p" using p by (simp add: power_int_def)
    then show ?thesis by (simp add: power_int_add)
  qed
  finally have "e < p + u" unfolding e_def using ilog2_less[OF qpos] by simp
  then have ue: "ue \<le> u" using u by (simp add: ue_def)
  have "q / 2 powi ue = of_int k * 2 powi (u - ue)" by (simp add: q power_int_diff)
  also have "\<dots> = of_int (k * 2 ^ nat (u - ue))" using ue by (simp add: power_int_def)
  finally have "rne (q / 2 powi ue) = k * 2 ^ nat (u - ue)" by (simp only: rne_of_int)
  then have "of_int (rne (q / 2 powi ue)) * 2 powi ue = of_int k * (2 powi (u - ue) * (2::rat) powi ue)"
    using ue by (simp add: power_int_def)
  also have "\<dots> = q" by (simp add: q power_int_diff)
  finally have rq: "of_int (rne (q / 2 powi ue)) * 2 powi ue = q" .
  have "ilog2 \<bar>q\<bar> < emax + 1" using ilog2_less[OF qpos r] .
  then show ?thesis using False rq by (simp add: rnd_def Let_def e_def[symmetric] ue_def[symmetric])
qed

lemma floor_rat_numeral [simp]: "\<lfloor>numeral a / numeral b :: rat\<rfloor> = numeral a div numeral b"
  using floor_divide_of_int_eq[of "numeral a" "numeral b", where ?'a = rat] by simp

lemma floor_rat_neg_numeral [simp]: "\<lfloor>- (numeral a / numeral b) :: rat\<rfloor> = - numeral a div numeral b"
  using floor_divide_of_int_eq[of "- numeral a" "numeral b", where ?'a = rat] by simp

lemma ceiling_rat_numeral [simp]: "\<lceil>numeral a / numeral b :: rat\<rceil> = - (- numeral a div numeral b)"
  by (simp add: ceiling_def)

lemma ceiling_rat_neg_numeral [simp]: "\<lceil>- (numeral a / numeral b) :: rat\<rceil> = - (numeral a div numeral b)"
  by (simp add: ceiling_def)

lemma floor_rat_one_numeral [simp]: "\<lfloor>1 / numeral b :: rat\<rfloor> = 1 div numeral b"
  using floor_divide_of_int_eq[of 1 "numeral b", where ?'a = rat] by simp

lemma floor_rat_neg_one_numeral [simp]: "\<lfloor>- (1 / numeral b) :: rat\<rfloor> = - 1 div numeral b"
  using floor_divide_of_int_eq[of "- 1" "numeral b", where ?'a = rat] by simp

lemma ceiling_rat_one_numeral [simp]: "\<lceil>1 / numeral b :: rat\<rceil> = - (- 1 div numeral b)"
  by (simp add: ceiling_def)

lemma ceiling_rat_neg_one_numeral [simp]: "\<lceil>- (1 / numeral b) :: rat\<rceil> = - (1 div numeral b)"
  by (simp add: ceiling_def)

lemma let_eval_cong: "a = b \<Longrightarrow> Let a f = Let b f"
  by simp

lemma floorlog_numeral: "floorlog 2 (numeral n) = 1 + floorlog 2 (numeral n div 2)"
  by (subst compute_floorlog) simp

lemma floorlog_0: "floorlog 2 0 = 0"
  by (simp add: floorlog_def)

lemma floorlog_1: "floorlog 2 (Suc 0) = Suc 0"
  by (subst compute_floorlog) (simp add: floorlog_def)

lemma powi_numeral: "(2::rat) powi (numeral n) = 2 ^ numeral n"
  by (simp add: power_int_def)

lemma powi_neg_numeral: "(2::rat) powi (- numeral n) = 1 / 2 ^ numeral n"
  by (simp add: power_int_def power_one_over field_simps)

lemma powi_1: "(2::rat) powi 1 = 2"
  by simp

lemma powi_m1: "(2::rat) powi (- 1) = 1 / 2"
  by (simp add: power_int_def)

text \<open>
  The rules that evaluate a rounding of a numeral, for \<open>simp\<close> with the congruence rule
  \<open>let_eval_cong\<close> (a \<open>let\<close> is unfolded once its bound value is known).
\<close>

lemmas fp_eval = rnd32_def rnd64_def rnd_def ilog2_def rne_def bitlen_def Let_def
  floorlog_numeral floorlog_0 floorlog_1 powi_numeral powi_neg_numeral powi_1 powi_m1
  dlit_def flit_def

text \<open>The literals of the source.\<close>

lemma literal_values:
  "flit (1 / 2) = Finite (1 / 2)" "flit 1 = Finite 1" "flit 0 = Finite 0"
  "flit (1 / 100) = Finite (5368709 / 536870912)"
  "f32_of_f64 (dlit 1) = Finite 1" "f32_of_f64 (dlit 4) = Finite 4"
  "dlit 2 = Finite 2" "dlit 3 = Finite 3"
  "f32_of_f64 (dlit (1 / 100000)) = Finite (2748779 / 274877906944)"
  by (simp_all add: fp_eval cong: let_eval_cong)

section \<open>The supported scale factors\<close>

text \<open>\<^verbatim>\<open>static std::vector<float> supported_scale_factors{4. / 3., 1.5, 2., 3., 4.};\<close>\<close>

definition supported_scale_factors :: "fp list" where
  "supported_scale_factors =
     [f32_of_f64 (fdiv rnd64 (dlit 4) (dlit 3)), f32_of_f64 (dlit (3 / 2)),
      f32_of_f64 (dlit 2), f32_of_f64 (dlit 3), f32_of_f64 (dlit 4)]"

text \<open>
  The range-based loop of \<^verbatim>\<open>find_closest_scale_factor\<close>; the accumulator is the pair
  \<^verbatim>\<open>minimal\<close>. The unqualified \<^verbatim>\<open>abs\<close> is the \<^verbatim>\<open>float\<close> overload of \<^verbatim>\<open><cmath>\<close>.
\<close>

definition find_closest_scale_factor :: "fp \<Rightarrow> fp" where
  "find_closest_scale_factor factor =
     fst (foldl (\<lambda>minimal delta.
                   let value = fabs (fsub rnd32 delta factor)
                   in if fgt (snd minimal) value then (delta, value) else minimal)
            (Finite 0, FLT_MAX) supported_scale_factors)"

definition find_closest_scale_factor_index :: "fp \<Rightarrow> nat" where
  "find_closest_scale_factor_index factor =
     fst (foldl (\<lambda>minimal idx.
                   let delta = supported_scale_factors ! idx;
                       value = fabs (fsub rnd32 delta factor)
                   in if fgt (snd minimal) value then (idx, value) else minimal)
            (0, FLT_MAX) [0 ..< length supported_scale_factors])"

lemma supported_values:
  "supported_scale_factors =
     [Finite (11184811 / 8388608), Finite (3 / 2), Finite 2, Finite 3, Finite 4]"
  by (simp add: supported_scale_factors_def fp_eval cong: let_eval_cong)

lemma supported_indices: "[0 ..< length supported_scale_factors] = [0, 1, 2, 3, 4]"
  by (simp add: supported_values upt_rec)

lemma FLT_MAX_value: "FLT_MAX = Finite 340282346638528859811704183484516925440"
  by (simp add: FLT_MAX_def)

lemma index_of_supported:
  "find_closest_scale_factor_index (Finite (11184811 / 8388608)) = 0"
  "find_closest_scale_factor_index (Finite (3 / 2)) = 1"
  "find_closest_scale_factor_index (Finite 2) = 2"
  "find_closest_scale_factor_index (Finite 3) = 3"
  "find_closest_scale_factor_index (Finite 4) = 4"
  by (simp_all add: find_closest_scale_factor_index_def supported_indices supported_values
      FLT_MAX_value fgt_def fp_eval cong: let_eval_cong)

lemma find_closest_scale_factor_index_less:
  "find_closest_scale_factor_index f < length supported_scale_factors"
proof -
  have "fst acc < 5 \<Longrightarrow> set xs \<subseteq> {..< 5} \<Longrightarrow>
      fst (foldl (\<lambda>minimal idx.
                   let delta = supported_scale_factors ! idx;
                       value = fabs (fsub rnd32 delta f)
                   in if fgt (snd minimal) value then (idx, value) else minimal) acc xs) < 5" for xs and acc :: "nat \<times> fp"
    by (induction xs arbitrary: acc) (auto simp: Let_def)
  from this[of "(0, FLT_MAX)" "[0, 1, 2, 3, 4]"]
  show ?thesis by (simp add: find_closest_scale_factor_index_def supported_indices) (simp add: supported_values)
qed

lemma index_of_supported_nth:
  assumes "i < length supported_scale_factors"
  shows "find_closest_scale_factor_index (supported_scale_factors ! i) = i"
proof -
  have "i = 0 \<or> i = 1 \<or> i = 2 \<or> i = 3 \<or> i = 4" using assms by (simp add: supported_values) arith
  then show ?thesis by (auto simp: supported_values index_of_supported)
qed

section \<open>The pipeline object\<close>

datatype pixel_format = RGBA | BGR
datatype component_type = UINT8 | FP32
datatype component_layout = PLANAR | INTERLEAVED

text \<open>A \<^verbatim>\<open>cv::image\<close> (always on the GPU, batch size 1) and a \<^verbatim>\<open>cv::texture\<close> (always \<^verbatim>\<open>GS_RGBA_UNORM\<close>).\<close>

record image =
  width :: u32
  height :: u32
  format :: pixel_format
  component :: component_type
  layout :: component_layout

record texture =
  tex_width :: u32
  tex_height :: u32

text \<open>
  Modelled from the spec: \<^verbatim>\<open>cv::image::resize\<close> and \<^verbatim>\<open>cv::texture::resize\<close> are declared
  in headers that are not part of the sources at hand. The spec has them resize the
  buffer in place, preserving its format.
\<close>

definition image_resize :: "u32 \<Rightarrow> u32 \<Rightarrow> image \<Rightarrow> image" where
  "image_resize w h i = i\<lparr>width := w, height := h\<rparr>"

definition texture_resize :: "u32 \<Rightarrow> u32 \<Rightarrow> texture \<Rightarrow> texture" where
  "texture_resize w h t = t\<lparr>tex_width := w, tex_height := h\<rparr>"

text \<open>
  The inference engine and the transfer primitive are opaque: all this module sees of a
  call is its status. \<open>call\<close> names the calls this module makes, and an \<open>engine\<close> gives
  the status of a call from the calls made before it.
\<close>

datatype cv_result = SUCCESS | FAILURE nat

datatype buffer = Input | Convert_To_FP32 | Source | Destination | Convert_To_U8 | Output

datatype call =
    Set_Strength u32
  | Set_Input_Image_0 image
  | Set_Output_Image_0 image
  | Effect_Load
  | Run
  | Copy_Texture
  | Transfer buffer buffer

type_synonym engine = "call list \<Rightarrow> call \<Rightarrow> cv_result"

text \<open>
  The members of \<^verbatim>\<open>superresolution\<close> (\<open>m_dirty\<close> is \<^verbatim>\<open>_dirty\<close>, and so on), a null
  \<^verbatim>\<open>shared_ptr\<close> being \<open>None\<close>. Three more fields make the surroundings explicit: \<open>calls\<close>
  is the list of engine calls made so far, \<open>log\<close> the error log, and \<open>locals\<close> the
  variables of a caller that \<^verbatim>\<open>size\<close> receives by reference.
\<close>

record superresolution =
  m_dirty :: bool
  m_input :: "texture option"
  m_convert_to_fp32 :: "image option"
  m_source :: "image option"
  m_destination :: "image option"
  m_convert_to_u8 :: "image option"
  m_output :: "texture option"
  m_tmp :: "image option"
  m_strength :: fp
  m_scale :: fp
  m_cache_input_size :: "u32 \<times> u32"
  m_cache_output_size :: "u32 \<times> u32"
  m_cache_scale :: fp
  calls :: "call list"
  log :: "string list"
  locals :: "nat \<Rightarrow> u32 \<times> u32"

text \<open>An operation returns the exception it raised, if any, and the object as it left it.\<close>

type_synonym outcome = "abort option \<times> superresolution"

definition and_then :: "outcome \<Rightarrow> (superresolution \<Rightarrow> outcome) \<Rightarrow> outcome" where
  "and_then r f = (case r of (None, s) \<Rightarrow> f s | (Some e, s) \<Rightarrow> (Some e, s))"

definition engine_call :: "engine \<Rightarrow> call \<Rightarrow> superresolution \<Rightarrow> cv_result \<times> superresolution" where
  "engine_call eng c s = (eng (calls s) c, s\<lparr>calls := calls s @ [c]\<rparr>)"

definition log_error :: "string \<Rightarrow> superresolution \<Rightarrow> superresolution" where
  "log_error msg s = s\<lparr>log := log s @ [msg]\<rparr>"

subsection \<open>\<^verbatim>\<open>set_strength\<close>, \<^verbatim>\<open>strength\<close>, \<^verbatim>\<open>set_scale\<close>, \<^verbatim>\<open>scale\<close>\<close>

definition set_strength :: "engine \<Rightarrow> fp \<Rightarrow> superresolution \<Rightarrow> outcome" where
  "set_strength eng strength0 s =
     (let strength1 = (if fge strength0 (flit (1 / 2)) then flit 1 else flit 0);
          strength2 = m_strength s;
          s1 = s\<lparr>m_strength := strength1\<rparr>;
          s2 = (if \<not> is_close (m_strength s1) strength2 (flit (1 / 100))
                then s1\<lparr>m_dirty := True\<rparr> else s1);
          value = (if fge (m_strength s2) (flit (1 / 2)) then 1 else 0);
          (res, s3) = engine_call eng (Set_Strength value) s2
      in if res \<noteq> SUCCESS then (None, log_error ''Failed to set Strength.'' s3)
         else (None, s3))"

definition strength :: "superresolution \<Rightarrow> fp" where
  "strength s = m_strength s"

definition set_scale :: "fp \<Rightarrow> superresolution \<Rightarrow> outcome" where
  "set_scale scale0 s =
     (let scale1 = clamp_float scale0 (f32_of_f64 (dlit 1)) (f32_of_f64 (dlit 4));
          factor = find_closest_scale_factor scale1;
          s1 = (if \<not> is_close (m_scale s) factor (flit (1 / 100))
                then s\<lparr>m_dirty := True\<rparr> else s)
      in (None, s1\<lparr>m_scale := factor\<rparr>))"

definition scale :: "superresolution \<Rightarrow> fp" where
  "scale s = m_scale s"

subsection \<open>\<^verbatim>\<open>size\<close>\<close>

text \<open>
  \<^verbatim>\<open>size\<close> takes its three pairs by reference, and \<^verbatim>\<open>resize\<close> passes members of the object
  itself. A \<open>pair_ref\<close> names the variable a reference is bound to, so that a write
  through one reference is seen through every other reference to the same variable.
\<close>

datatype pair_ref = Cache_Input_Size | Cache_Output_Size | Local nat

fun rd :: "pair_ref \<Rightarrow> superresolution \<Rightarrow> u32 \<times> u32" where
  "rd Cache_Input_Size s = m_cache_input_size s"
| "rd Cache_Output_Size s = m_cache_output_size s"
| "rd (Local n) s = locals s n"

fun wr :: "pair_ref \<Rightarrow> u32 \<times> u32 \<Rightarrow> superresolution \<Rightarrow> superresolution" where
  "wr Cache_Input_Size v s = s\<lparr>m_cache_input_size := v\<rparr>"
| "wr Cache_Output_Size v s = s\<lparr>m_cache_output_size := v\<rparr>"
| "wr (Local n) v s = s\<lparr>locals := (locals s)(n := v)\<rparr>"

definition wr_first :: "pair_ref \<Rightarrow> u32 \<Rightarrow> superresolution \<Rightarrow> superresolution" where
  "wr_first r v s = wr r (v, snd (rd r s)) s"

definition wr_second :: "pair_ref \<Rightarrow> u32 \<Rightarrow> superresolution \<Rightarrow> superresolution" where
  "wr_second r v s = wr r (fst (rd r s), v) s"

definition min_width :: u32 where
  "min_width = 160"

definition min_height :: u32 where
  "min_height = 90"

text \<open>Lines 160-161: the test of the cache, and lines 162-164: what is returned on a hit.\<close>

definition cache_hit :: "pair_ref \<Rightarrow> superresolution \<Rightarrow> bool" where
  "cache_hit input_size s =
     (fst (rd input_size s) = fst (m_cache_input_size s)
      \<and> snd (rd input_size s) = snd (m_cache_input_size s)
      \<and> feq (m_scale s) (m_cache_scale s))"

definition cache_load :: "pair_ref \<Rightarrow> pair_ref \<Rightarrow> superresolution \<Rightarrow> superresolution" where
  "cache_load input_size output_size s =
     (let s1 = wr input_size (m_cache_input_size s) s;
          s2 = wr output_size (m_cache_output_size s1) s1
      in s2\<lparr>m_scale := m_cache_scale s2\<rparr>)"

text \<open>Lines 171-182: the upper bounds \<^verbatim>\<open>(max_width, max_height)\<close>.\<close>

definition max_size :: "fp \<Rightarrow> u32 \<times> u32" where
  "max_size sc =
     (if fgt sc (dlit 3) then (960, 540)
      else if fgt sc (dlit 2) then (1280, 720)
      else (1920, 1080))"

text \<open>Lines 185-186: restore the input size.\<close>

definition restore_input_size :: "pair_ref \<Rightarrow> pair_ref \<Rightarrow> superresolution \<Rightarrow> superresolution" where
  "restore_input_size size0 input_size s =
     (let s1 = wr_first input_size (fst (rd size0 s)) s
      in wr_second input_size (snd (rd size0 s1)) s1)"

text \<open>Lines 189-201: calculate the input size.\<close>

definition calculate_input_size :: "pair_ref \<Rightarrow> u32 \<times> u32 \<Rightarrow> superresolution \<Rightarrow> outcome" where
  "calculate_input_size input_size mx s =
     (if snd (rd input_size s) < fst (rd input_size s) then
        (let ar = fdiv rnd64 (f64_of_u32 (snd (rd input_size s))) (f64_of_u32 (fst (rd input_size s)));
             s1 = wr_first input_size (clamp_u32 (fst (rd input_size s)) min_width (fst mx)) s
         in case lround (fmul rnd64 (f64_of_u32 (fst (rd input_size s1))) ar) of
              None \<Rightarrow> (Some Lround_Out_Of_Range, s1)
            | Some l \<Rightarrow>
                (None, wr_second input_size (clamp_u32 (u32_of_long l) min_height (snd mx)) s1))
      else
        (let ar = fdiv rnd64 (f64_of_u32 (fst (rd input_size s))) (f64_of_u32 (snd (rd input_size s)));
             s1 = wr_second input_size (clamp_u32 (snd (rd input_size s)) min_height (snd mx)) s
         in case lround (fmul rnd64 (f64_of_u32 (snd (rd input_size s1))) ar) of
              None \<Rightarrow> (Some Lround_Out_Of_Range, s1)
            | Some l \<Rightarrow>
                (None, wr_first input_size (clamp_u32 (u32_of_long l) min_width (fst mx)) s1)))"

text \<open>Lines 204-205: calculate the output size.\<close>

definition calculate_output_size :: "pair_ref \<Rightarrow> pair_ref \<Rightarrow> superresolution \<Rightarrow> outcome" where
  "calculate_output_size input_size output_size s =
     (case lround (fmul rnd32 (f32_of_u32 (fst (rd input_size s))) (m_scale s)) of
        None \<Rightarrow> (Some Lround_Out_Of_Range, s)
      | Some l1 \<Rightarrow>
          (let s1 = wr_first output_size (u32_of_long l1) s
           in case lround (fmul rnd32 (f32_of_u32 (snd (rd input_size s1))) (m_scale s1)) of
                None \<Rightarrow> (Some Lround_Out_Of_Range, s1)
              | Some l2 \<Rightarrow> (None, wr_second output_size (u32_of_long l2) s1)))"

text \<open>Lines 208-211: the test that this is not a valid scale factor.\<close>

definition invalid_scale_factor :: "pair_ref \<Rightarrow> pair_ref \<Rightarrow> superresolution \<Rightarrow> bool" where
  "invalid_scale_factor input_size output_size s =
     (let width_mul = fdiv rnd32 (f32_of_u32 (fst (rd output_size s))) (f32_of_u32 (fst (rd input_size s)));
          height_mul = fdiv rnd32 (f32_of_u32 (snd (rd output_size s))) (f32_of_u32 (snd (rd input_size s)))
      in \<not> is_close width_mul (m_scale s) (f32_of_f64 (dlit (1 / 100000)))
         \<or> \<not> is_close height_mul (m_scale s) (f32_of_f64 (dlit (1 / 100000))))"

text \<open>Lines 220-222: update the last stored values.\<close>

definition cache_store :: "pair_ref \<Rightarrow> pair_ref \<Rightarrow> superresolution \<Rightarrow> superresolution" where
  "cache_store input_size output_size s =
     (let s1 = s\<lparr>m_cache_input_size := rd input_size s\<rparr>;
          s2 = s1\<lparr>m_cache_output_size := rd output_size s1\<rparr>
      in s2\<lparr>m_cache_scale := m_scale s2\<rparr>)"

text \<open>Lines 168-205, from the bounds to the output size.\<close>

definition size_compute :: "pair_ref \<Rightarrow> pair_ref \<Rightarrow> pair_ref \<Rightarrow> superresolution \<Rightarrow> outcome" where
  "size_compute size0 input_size output_size s =
     and_then (calculate_input_size input_size (max_size (m_scale s))
                 (restore_input_size size0 input_size s))
       (calculate_output_size input_size output_size)"

text \<open>A read of the vector at an index, \<open>None\<close> out of its bounds.\<close>

definition vector_at :: "'a list \<Rightarrow> nat \<Rightarrow> 'a option" where
  "vector_at xs i = (if i < length xs then Some (xs ! i) else None)"

text \<open>None of these steps writes \<^verbatim>\<open>_scale\<close>.\<close>

lemma m_scale_wr [simp]: "m_scale (wr r v s) = m_scale s"
  by (cases r) simp_all

lemma m_scale_restore_input_size [simp]: "m_scale (restore_input_size a b s) = m_scale s"
  by (simp add: restore_input_size_def wr_first_def wr_second_def Let_def)

lemma m_scale_calculate_input_size [simp]:
  "m_scale (snd (calculate_input_size r mx s)) = m_scale s"
  by (simp add: calculate_input_size_def wr_first_def wr_second_def Let_def split: option.splits)

lemma m_scale_calculate_output_size [simp]:
  "m_scale (snd (calculate_output_size a b s)) = m_scale s"
  by (simp add: calculate_output_size_def wr_first_def wr_second_def Let_def split: option.splits)

lemma m_scale_size_compute [simp]:
  "m_scale (snd (size_compute a b c s)) = m_scale s"
  by (simp add: size_compute_def and_then_def split: prod.splits option.splits)
    (metis m_scale_calculate_input_size m_scale_calculate_output_size m_scale_restore_input_size snd_conv)

text \<open>
  \<^verbatim>\<open>size\<close> itself (named \<open>size_fn\<close>, as \<open>size\<close> is taken). When the scale factor is
  not valid, the scale becomes the entry after the closest one and \<^verbatim>\<open>size\<close> calls
  itself; a read past the end of the vector stops the model with \<open>Out_Of_Bounds_Read\<close>.
  The recursion ends because the index of the closest entry grows with every call.
\<close>

function size_fn :: "pair_ref \<Rightarrow> pair_ref \<Rightarrow> pair_ref \<Rightarrow> superresolution \<Rightarrow> outcome" where
  "size_fn size0 input_size output_size s =
     (if cache_hit input_size s then (None, cache_load input_size output_size s)
      else case size_compute size0 input_size output_size s of
             (Some e, s1) \<Rightarrow> (Some e, s1)
           | (None, s1) \<Rightarrow>
               if invalid_scale_factor input_size output_size s1 then
                 (let scale_idx = find_closest_scale_factor_index (m_scale s1)
                  in if scale_idx < length supported_scale_factors then
                       (case vector_at supported_scale_factors (scale_idx + 1) of
                          None \<Rightarrow> (Some (Out_Of_Bounds_Read (scale_idx + 1)), s1)
                        | Some f \<Rightarrow>
                            (case size_fn size0 input_size output_size (s1\<lparr>m_scale := f\<rparr>) of
                               (Some e, s2) \<Rightarrow> (Some e, s2)
                             | (None, s2) \<Rightarrow> (None, cache_store input_size output_size s2)))
                     else (None, cache_store input_size output_size s1))
               else (None, cache_store input_size output_size s1))"
  by pat_completeness auto

termination
proof (relation "measure (\<lambda>(size0, input_size, output_size, s).
          length supported_scale_factors - find_closest_scale_factor_index (m_scale s))", goal_cases)
  case 1
  show ?case by simp
next
  case (2 size0 input_size output_size s x1 x2 zz f)
  have sc: "m_scale x2 = m_scale s"
    using 2(2) m_scale_size_compute[of size0 input_size output_size s] by (metis snd_conv)
  have f: "zz + 1 < length supported_scale_factors" "f = supported_scale_factors ! (zz + 1)"
    using 2 by (auto simp: vector_at_def split: if_splits)
  have "find_closest_scale_factor_index f = zz + 1"
    using f index_of_supported_nth by simp
  then show ?case using 2 f sc by simp
qed

subsection \<open>\<^verbatim>\<open>resize\<close>\<close>

text \<open>Steps run in order; the first exception ends the run.\<close>

primrec run_all :: "(superresolution \<Rightarrow> outcome) list \<Rightarrow> superresolution \<Rightarrow> outcome" where
  "run_all [] s = (None, s)"
| "run_all (f # fs) s = and_then (f s) (run_all fs)"

text \<open>Lines 325-326.\<close>

definition resize_size :: "u32 \<Rightarrow> u32 \<Rightarrow> superresolution \<Rightarrow> outcome" where
  "resize_size w h s =
     size_fn Cache_Input_Size Cache_Input_Size Cache_Output_Size (s\<lparr>m_cache_input_size := (w, h)\<rparr>)"

text \<open>Lines 328-333.\<close>

definition resize_tmp :: "superresolution \<Rightarrow> outcome" where
  "resize_tmp s =
     (if m_tmp s = None then
        (None, s\<lparr>m_tmp := Some \<lparr>width = fst (m_cache_output_size s), height = snd (m_cache_output_size s),
                                 format = RGBA, component = UINT8, layout = PLANAR\<rparr>\<rparr>)
      else (None, s))"

text \<open>Lines 335-343.\<close>

definition resize_input :: "superresolution \<Rightarrow> outcome" where
  "resize_input s =
     (case m_input s of
        None \<Rightarrow>
          (None, s\<lparr>m_input := Some \<lparr>tex_width = fst (m_cache_input_size s),
                                     tex_height = snd (m_cache_input_size s)\<rparr>\<rparr>)
      | Some t \<Rightarrow>
          if tex_width t \<noteq> fst (m_cache_input_size s) \<or> tex_height t \<noteq> snd (m_cache_input_size s)
          then (None, s\<lparr>m_input := Some (texture_resize (fst (m_cache_input_size s))
                                            (snd (m_cache_input_size s)) t)\<rparr>)
          else (None, s))"

text \<open>Lines 345-355.\<close>

definition resize_convert_to_fp32 :: "superresolution \<Rightarrow> outcome" where
  "resize_convert_to_fp32 s =
     (case m_convert_to_fp32 s of
        None \<Rightarrow>
          (None, s\<lparr>m_convert_to_fp32 :=
                      Some \<lparr>width = fst (m_cache_input_size s), height = snd (m_cache_input_size s),
                            format = RGBA, component = FP32, layout = PLANAR\<rparr>\<rparr>)
      | Some i \<Rightarrow>
          if width i \<noteq> fst (m_cache_input_size s) \<or> height i \<noteq> snd (m_cache_input_size s)
          then (None, s\<lparr>m_convert_to_fp32 := Some (image_resize (fst (m_cache_input_size s))
                                                      (snd (m_cache_input_size s)) i)\<rparr>)
          else (None, s))"

text \<open>Lines 368-374 and 388-394: bind an image to the engine, then flag the effect as dirty.\<close>

definition set_image :: "engine \<Rightarrow> call \<Rightarrow> string \<Rightarrow> superresolution \<Rightarrow> outcome" where
  "set_image eng c msg s =
     (let (res, s1) = engine_call eng c s
      in if res \<noteq> SUCCESS then (Some (Runtime_Error ''SetImage failed.''), log_error msg s1)
         else (None, s1\<lparr>m_dirty := True\<rparr>))"

text \<open>Lines 357-375.\<close>

definition resize_source :: "engine \<Rightarrow> superresolution \<Rightarrow> outcome" where
  "resize_source eng s =
     (case m_source s of
        None \<Rightarrow>
          (let i = \<lparr>width = fst (m_cache_input_size s), height = snd (m_cache_input_size s),
                    format = BGR, component = FP32, layout = PLANAR\<rparr>
           in set_image eng (Set_Input_Image_0 i) ''Failed to set input image.''
                (s\<lparr>m_source := Some i\<rparr>))
      | Some i0 \<Rightarrow>
          if width i0 \<noteq> fst (m_cache_input_size s) \<or> height i0 \<noteq> snd (m_cache_input_size s)
          then (let i = image_resize (fst (m_cache_input_size s)) (snd (m_cache_input_size s)) i0
                in set_image eng (Set_Input_Image_0 i) ''Failed to set input image.''
                     (s\<lparr>m_source := Some i\<rparr>))
          else (None, s))"

text \<open>Lines 377-395.\<close>

definition resize_destination :: "engine \<Rightarrow> superresolution \<Rightarrow> outcome" where
  "resize_destination eng s =
     (case m_destination s of
        None \<Rightarrow>
          (let i = \<lparr>width = fst (m_cache_output_size s), height = snd (m_cache_output_size s),
                    format = BGR, component = FP32, layout = PLANAR\<rparr>
           in set_image eng (Set_Output_Image_0 i) ''Failed to set output image.''
                (s\<lparr>m_destination := Some i\<rparr>))
      | Some i0 \<Rightarrow>
          if width i0 \<noteq> fst (m_cache_output_size s) \<or> height i0 \<noteq> snd (m_cache_output_size s)
          then (let i = image_resize (fst (m_cache_output_size s)) (snd (m_cache_output_size s)) i0
                in set_image eng (Set_Output_Image_0 i) ''Failed to set output image.''
                     (s\<lparr>m_destination := Some i\<rparr>))
          else (None, s))"

text \<open>Lines 397-407.\<close>

definition resize_convert_to_u8 :: "superresolution \<Rightarrow> outcome" where
  "resize_convert_to_u8 s =
     (case m_convert_to_u8 s of
        None \<Rightarrow>
          (None, s\<lparr>m_convert_to_u8 :=
                      Some \<lparr>width = fst (m_cache_output_size s), height = snd (m_cache_output_size s),
                            format = RGBA, component = UINT8, layout = INTERLEAVED\<rparr>\<rparr>)
      | Some i \<Rightarrow>
          if width i \<noteq> fst (m_cache_output_size s) \<or> height i \<noteq> snd (m_cache_output_size s)
          then (None, s\<lparr>m_convert_to_u8 := Some (image_resize (fst (m_cache_output_size s))
                                                    (snd (m_cache_output_size s)) i)\<rparr>)
          else (None, s))"

text \<open>Lines 409-417.\<close>

definition resize_output :: "superresolution \<Rightarrow> outcome" where
  "resize_output s =
     (case m_output s of
        None \<Rightarrow>
          (None, s\<lparr>m_output := Some \<lparr>tex_width = fst (m_cache_output_size s),
                                      tex_height = snd (m_cache_output_size s)\<rparr>\<rparr>)
      | Some t \<Rightarrow>
          if tex_width t \<noteq> fst (m_cache_output_size s) \<or> tex_height t \<noteq> snd (m_cache_output_size s)
          then (None, s\<lparr>m_output := Some (texture_resize (fst (m_cache_output_size s))
                                             (snd (m_cache_output_size s)) t)\<rparr>)
          else (None, s))"

definition resize :: "engine \<Rightarrow> u32 \<Rightarrow> u32 \<Rightarrow> superresolution \<Rightarrow> outcome" where
  "resize eng w h =
     run_all [resize_size w h, resize_tmp, resize_input, resize_convert_to_fp32,
              resize_source eng, resize_destination eng, resize_convert_to_u8, resize_output]"

subsection \<open>\<^verbatim>\<open>load\<close>, \<^verbatim>\<open>process\<close> and the constructor\<close>

definition load :: "engine \<Rightarrow> superresolution \<Rightarrow> outcome" where
  "load eng s =
     (let (res, s1) = engine_call eng Effect_Load s
      in if res \<noteq> SUCCESS
         then (Some (Runtime_Error ''Load failed.''), log_error ''Failed to initialize effect.'' s1)
         else (None, s1\<lparr>m_dirty := False\<rparr>))"

definition reload_if_dirty :: "engine \<Rightarrow> superresolution \<Rightarrow> outcome" where
  "reload_if_dirty eng s = (if m_dirty s then load eng s else (None, s))"

definition copy_texture :: "engine \<Rightarrow> superresolution \<Rightarrow> outcome" where
  "copy_texture eng s = (None, snd (engine_call eng Copy_Texture s))"

definition transfer :: "engine \<Rightarrow> buffer \<Rightarrow> buffer \<Rightarrow> string \<Rightarrow> superresolution \<Rightarrow> outcome" where
  "transfer eng src dst msg s =
     (let (res, s1) = engine_call eng (Transfer src dst) s
      in if res \<noteq> SUCCESS then (Some (Runtime_Error ''Transfer failed.''), log_error msg s1)
         else (None, s1))"

definition run_effect :: "engine \<Rightarrow> superresolution \<Rightarrow> outcome" where
  "run_effect eng s =
     (let (res, s1) = engine_call eng Run s
      in if res \<noteq> SUCCESS then (Some (Runtime_Error ''Run failed.''), log_error ''Failed to process.'' s1)
         else (None, s1))"

text \<open>
  \<^verbatim>\<open>process\<close> returns the output texture, or the exception that ended it, and the object
  as it is then.
\<close>

definition process :: "engine \<Rightarrow> texture \<Rightarrow> superresolution \<Rightarrow> (abort + texture) \<times> superresolution" where
  "process eng tex s =
     (case run_all
             [resize eng (tex_width tex) (tex_height tex),
              reload_if_dirty eng,
              copy_texture eng,
              transfer eng Input Convert_To_FP32 ''Failed to transfer processing result to output.'',
              transfer eng Convert_To_FP32 Source ''Failed to transfer input to processing source.'',
              run_effect eng,
              transfer eng Destination Convert_To_U8 ''Failed to transfer processing result to output.'',
              transfer eng Convert_To_U8 Output ''Failed to transfer processing result to output.''] s of
        (Some e, s1) \<Rightarrow> (Inl e, s1)
      | (None, s1) \<Rightarrow>
          (case m_output s1 of None \<Rightarrow> (Inl Null_Pointer, s1) | Some t \<Rightarrow> (Inr t, s1)))"

text \<open>The member initialisers of the constructor, and its body.\<close>

definition initial :: superresolution where
  "initial =
     \<lparr>m_dirty = True, m_input = None, m_convert_to_fp32 = None, m_source = None,
      m_destination = None, m_convert_to_u8 = None, m_output = None, m_tmp = None,
      m_strength = f32_of_f64 (dlit 1), m_scale = f32_of_f64 (dlit (3 / 2)),
      m_cache_input_size = (0, 0), m_cache_output_size = (0, 0), m_cache_scale = Finite 0,
      calls = [], log = [], locals = (\<lambda>n. (0, 0))\<rparr>"

definition new_superresolution :: "engine \<Rightarrow> outcome" where
  "new_superresolution eng =
     run_all [(\<lambda>s. set_strength eng (m_strength s) s), (\<lambda>s. set_scale (m_scale s) s),
              resize eng 160 90, load eng] initial"

section \<open>Running the model\<close>

text \<open>The unfolding rules that evaluate the operations on a given object.\<close>

declare size_fn.simps [simp del]

lemmas model_eval =
  and_then_def engine_call_def log_error_def set_strength_def set_scale_def strength_def scale_def
  clamp_float_def clamp_u32_def fge_def fgt_def
  find_closest_scale_factor_def find_closest_scale_factor_index_def supported_indices supported_values
  FLT_MAX_value literal_values
  wr_first_def wr_second_def min_width_def min_height_def cache_hit_def cache_load_def max_size_def
  restore_input_size_def calculate_input_size_def calculate_output_size_def invalid_scale_factor_def
  cache_store_def size_compute_def vector_at_def f32_of_u32_def f64_of_u32_def u32_of_long_def
  resize_size_def resize_tmp_def resize_input_def resize_convert_to_fp32_def set_image_def
  resize_source_def resize_destination_def resize_convert_to_u8_def resize_output_def resize_def
  load_def reload_if_dirty_def copy_texture_def transfer_def run_effect_def process_def
  image_resize_def texture_resize_def size_fn.simps

text \<open>
  \<^verbatim>\<open>size\<close> writes the scale, the three cache members and the variables it was given,
  and nothing else: two objects that agree after \<open>size_frame\<close> differ in those only.
\<close>

definition size_frame :: "superresolution \<Rightarrow> superresolution" where
  "size_frame s =
     s\<lparr>m_scale := Finite 0, m_cache_input_size := (0, 0), m_cache_output_size := (0, 0),
       m_cache_scale := Finite 0, locals := (\<lambda>n. (0, 0))\<rparr>"

lemma size_frame_wr [simp]: "size_frame (wr r v s) = size_frame s"
  by (cases r) (simp_all add: size_frame_def)

lemma size_frame_m_scale [simp]: "size_frame (s\<lparr>m_scale := f\<rparr>) = size_frame s"
  by (simp add: size_frame_def)

lemma size_frame_cache_load [simp]: "size_frame (cache_load i o' s) = size_frame s"
  by (simp add: cache_load_def Let_def)

lemma size_frame_cache_store [simp]: "size_frame (cache_store i o' s) = size_frame s"
  by (simp add: cache_store_def Let_def size_frame_def)

lemma size_frame_calculate_input_size [simp]:
  "size_frame (snd (calculate_input_size r mx s)) = size_frame s"
  by (simp add: calculate_input_size_def wr_first_def wr_second_def Let_def split: option.splits)

lemma size_frame_calculate_output_size [simp]:
  "size_frame (snd (calculate_output_size a b s)) = size_frame s"
  by (simp add: calculate_output_size_def wr_first_def wr_second_def Let_def split: option.splits)

lemma size_frame_size_compute [simp]:
  "size_frame (snd (size_compute a b c s)) = size_frame s"
proof -
  have "size_frame (snd (calculate_input_size b (max_size (m_scale s)) (restore_input_size a b s))) = size_frame s"
    by (simp add: restore_input_size_def wr_first_def wr_second_def Let_def)
  then show ?thesis
    by (cases "calculate_input_size b (max_size (m_scale s)) (restore_input_size a b s)")
       (auto simp: size_compute_def and_then_def split: option.splits
             dest: arg_cong[where f = "\<lambda>p. size_frame (snd (calculate_output_size b c (snd p)))"])
qed

lemma size_frame_size_fn: "size_frame (snd (size_fn z i o' s)) = size_frame s"
proof (induction z i o' s rule: size_fn.induct)
  case (1 z i o' s)
  show ?case
  proof (cases "cache_hit i s")
    case True
    then show ?thesis by (subst size_fn.simps) simp
  next
    case False
    obtain x s1 where sc: "size_compute z i o' s = (x, s1)" by (cases "size_compute z i o' s")
    have f1: "size_frame s1 = size_frame s" using size_frame_size_compute[of z i o' s] sc by simp
    show ?thesis
    proof (cases x)
      case (Some e)
      then show ?thesis using False sc f1 by (subst size_fn.simps) simp
    next
      case None
      show ?thesis
      proof (cases "invalid_scale_factor i o' s1 \<and> find_closest_scale_factor_index (m_scale s1) < length supported_scale_factors")
        case False
        then show ?thesis using \<open>\<not> cache_hit i s\<close> sc None f1
          by (subst size_fn.simps) (auto simp: Let_def)
      next
        case True
        show ?thesis
        proof (cases "vector_at supported_scale_factors (find_closest_scale_factor_index (m_scale s1) + 1)")
          case None2: None
          then show ?thesis using \<open>\<not> cache_hit i s\<close> sc None f1 True
            by (subst size_fn.simps) (simp add: Let_def)
        next
          case (Some f)
          have ih: "size_frame (snd (size_fn z i o' (s1\<lparr>m_scale := f\<rparr>))) = size_frame s"
            using "1"[OF \<open>\<not> cache_hit i s\<close> sc[symmetric] None _ refl _ Some] True f1 by simp
          then show ?thesis using \<open>\<not> cache_hit i s\<close> sc None True Some
            by (subst size_fn.simps) (auto simp: Let_def split: prod.splits option.splits)
        qed
      qed
    qed
  qed
qed

lemma size_fn_keeps:
  "m_dirty (snd (size_fn z i o' s)) = m_dirty s"
  "m_tmp (snd (size_fn z i o' s)) = m_tmp s"
  "m_input (snd (size_fn z i o' s)) = m_input s"
  "m_convert_to_fp32 (snd (size_fn z i o' s)) = m_convert_to_fp32 s"
  "m_source (snd (size_fn z i o' s)) = m_source s"
  "m_destination (snd (size_fn z i o' s)) = m_destination s"
  "m_convert_to_u8 (snd (size_fn z i o' s)) = m_convert_to_u8 s"
  "m_output (snd (size_fn z i o' s)) = m_output s"
  "calls (snd (size_fn z i o' s)) = calls s"
  "log (snd (size_fn z i o' s)) = log s"
  using arg_cong[OF size_frame_size_fn[of z i o' s], of m_dirty]
    arg_cong[OF size_frame_size_fn[of z i o' s], of m_tmp]
    arg_cong[OF size_frame_size_fn[of z i o' s], of m_input]
    arg_cong[OF size_frame_size_fn[of z i o' s], of m_convert_to_fp32]
    arg_cong[OF size_frame_size_fn[of z i o' s], of m_source]
    arg_cong[OF size_frame_size_fn[of z i o' s], of m_destination]
    arg_cong[OF size_frame_size_fn[of z i o' s], of m_convert_to_u8]
    arg_cong[OF size_frame_size_fn[of z i o' s], of m_output]
    arg_cong[OF size_frame_size_fn[of z i o' s], of calls]
    arg_cong[OF size_frame_size_fn[of z i o' s], of log]
  by (simp_all add: size_frame_def)

text \<open>An engine whose every call succeeds, and the object the constructor builds on it.\<close>

definition engine_ok :: engine where
  "engine_ok cs c = SUCCESS"

definition constructed :: superresolution where
  "constructed =
     \<lparr>m_dirty = False, m_input = Some \<lparr>tex_width = 160, tex_height = 90\<rparr>,
      m_convert_to_fp32 =
        Some \<lparr>width = 160, height = 90, format = RGBA, component = FP32, layout = PLANAR\<rparr>,
      m_source =
        Some \<lparr>width = 160, height = 90, format = BGR, component = FP32, layout = PLANAR\<rparr>,
      m_destination =
        Some \<lparr>width = 240, height = 135, format = BGR, component = FP32, layout = PLANAR\<rparr>,
      m_convert_to_u8 =
        Some \<lparr>width = 240, height = 135, format = RGBA, component = UINT8, layout = INTERLEAVED\<rparr>,
      m_output = Some \<lparr>tex_width = 240, tex_height = 135\<rparr>,
      m_tmp =
        Some \<lparr>width = 240, height = 135, format = RGBA, component = UINT8, layout = PLANAR\<rparr>,
      m_strength = Finite 1, m_scale = Finite (3 / 2),
      m_cache_input_size = (160, 90), m_cache_output_size = (240, 135),
      m_cache_scale = Finite (3 / 2),
      calls =
        [Set_Strength 1,
         Set_Input_Image_0 \<lparr>width = 160, height = 90, format = BGR, component = FP32, layout = PLANAR\<rparr>,
         Set_Output_Image_0 \<lparr>width = 240, height = 135, format = BGR, component = FP32, layout = PLANAR\<rparr>,
         Effect_Load],
      log = [], locals = (\<lambda>n. (0, 0))\<rparr>"

lemma new_superresolution_ok: "new_superresolution engine_ok = (None, constructed)"
  by (simp add: new_superresolution_def initial_def constructed_def engine_ok_def model_eval fp_eval
      cong: let_eval_cong)

text \<open>An engine whose every call fails.\<close>

definition engine_failing :: engine where
  "engine_failing cs c = FAILURE 1"

text \<open>
  A caller of \<^verbatim>\<open>size\<close> with variables of its own: the requested size is its variable 0,
  and it receives the input size in variable 1 and the output size in variable 2.
\<close>

definition caller :: "u32 \<times> u32 \<Rightarrow> superresolution \<Rightarrow> superresolution" where
  "caller sz s = s\<lparr>locals := (\<lambda>n. if n = 0 then sz else (0, 0))\<rparr>"

text \<open>An engine whose \<^verbatim>\<open>load\<close> fails while every other call succeeds.\<close>

definition engine_load_fails :: engine where
  "engine_load_fails cs c = (if c = Effect_Load then FAILURE 1 else SUCCESS)"

text \<open>
  An engine whose \<^verbatim>\<open>load\<close> fails when exactly one load has been made before (the one of
  the constructor) and succeeds otherwise, and an engine that refuses every output image.
\<close>

definition engine_load_fails_once :: engine where
  "engine_load_fails_once cs c =
     (if c = Effect_Load \<and> length (filter (\<lambda>x. x = Effect_Load) cs) = 1 then FAILURE 1 else SUCCESS)"

definition engine_output_binding_fails :: engine where
  "engine_output_binding_fails cs c = (case c of Set_Output_Image_0 i \<Rightarrow> FAILURE 1 | _ \<Rightarrow> SUCCESS)"

text \<open>
  An object whose scale is 3.75, nearest to the last supported factor, with a caller that
  requests 161x161. No setter stores such a scale; it stands for the case that the last
  entry of the vector is the closest one.
\<close>

definition last_entry_state :: superresolution where
  "last_entry_state = caller (161, 161) (constructed\<lparr>m_scale := Finite (15 / 4)\<rparr>)"

text \<open>A buffer fits a size when it exists and has that size.\<close>

definition image_fits :: "image option \<Rightarrow> u32 \<times> u32 \<Rightarrow> bool" where
  "image_fits b sz = (case b of None \<Rightarrow> False | Some i \<Rightarrow> width i = fst sz \<and> height i = snd sz)"

definition texture_fits :: "texture option \<Rightarrow> u32 \<times> u32 \<Rightarrow> bool" where
  "texture_fits b sz = (case b of None \<Rightarrow> False | Some t \<Rightarrow> tex_width t = fst sz \<and> tex_height t = snd sz)"

text \<open>
  What \<^verbatim>\<open>resize\<close> is to make of a buffer for a size: a missing buffer is allocated with that
  size (and, for an image, the given format), a buffer of another size is resized, and a
  buffer that fits is kept as it is.
\<close>

definition refit_texture :: "u32 \<times> u32 \<Rightarrow> texture option \<Rightarrow> texture" where
  "refit_texture sz b =
     (case b of
        None \<Rightarrow> \<lparr>tex_width = fst sz, tex_height = snd sz\<rparr>
      | Some t \<Rightarrow> if texture_fits b sz then t else texture_resize (fst sz) (snd sz) t)"

definition refit_image ::
  "pixel_format \<Rightarrow> component_type \<Rightarrow> component_layout \<Rightarrow> u32 \<times> u32 \<Rightarrow> image option \<Rightarrow> image" where
  "refit_image f c l sz b =
     (case b of
        None \<Rightarrow> \<lparr>width = fst sz, height = snd sz, format = f, component = c, layout = l\<rparr>
      | Some i \<Rightarrow> if image_fits b sz then i else image_resize (fst sz) (snd sz) i)"

text \<open>\<open>nearer a b c\<close>: the value \<open>a\<close> is strictly nearer to \<open>c\<close> than \<open>b\<close> is.\<close>

fun nearer :: "fp \<Rightarrow> fp \<Rightarrow> fp \<Rightarrow> bool" where
  "nearer (Finite a) (Finite b) (Finite c) = (\<bar>a - c\<bar> < \<bar>b - c\<bar>)"
| "nearer a b c = False"

section \<open>Facts about the operations\<close>

lemma fge_literals: "fge (flit 1) (flit (1 / 2))" "\<not> fge (flit 0) (flit (1 / 2))"
  by (simp_all add: literal_values fge_def)

lemma set_strength_fields:
  "fst (set_strength eng x s) = None"
  "m_strength (snd (set_strength eng x s)) = (if fge x (flit (1 / 2)) then flit 1 else flit 0)"
  "m_dirty (snd (set_strength eng x s)) =
     (m_dirty s \<or> \<not> is_close (if fge x (flit (1 / 2)) then flit 1 else flit 0) (m_strength s) (flit (1 / 100)))"
  by (cases "fge x (flit (1 / 2))";
      cases "is_close (flit 1) (m_strength s) (flit (1 / 100))";
      cases "is_close (flit 0) (m_strength s) (flit (1 / 100))";
      simp add: set_strength_def Let_def engine_call_def log_error_def fge_literals)+

lemma run_all_keeps:
  assumes "\<And>f s. f \<in> set fs \<Longrightarrow> P s \<Longrightarrow> P (snd (f s))" and "P s"
  shows "P (snd (run_all fs s))"
  using assms
proof (induction fs arbitrary: s)
  case Nil
  then show ?case by simp
next
  case (Cons f fs)
  obtain e s1 where f: "f s = (e, s1)" by (cases "f s")
  have p1: "P s1" using Cons.prems(1)[of f s] Cons.prems(2) f by simp
  show ?case
  proof (cases e)
    case None
    then show ?thesis using Cons.IH[of s1] Cons.prems(1) p1 f by (simp add: and_then_def)
  next
    case (Some a)
    then show ?thesis using p1 f by (simp add: and_then_def)
  qed
qed

lemma set_image_dirty: "m_dirty (snd (set_image eng c msg s)) = (m_dirty s \<or> eng (calls s) c = SUCCESS)"
  by (simp add: set_image_def engine_call_def log_error_def)

lemma resize_steps_keep_dirty:
  assumes "m_dirty s"
  shows "m_dirty (snd (resize_size w h s))" "m_dirty (snd (resize_tmp s))" "m_dirty (snd (resize_input s))"
    "m_dirty (snd (resize_convert_to_fp32 s))" "m_dirty (snd (resize_source eng s))"
    "m_dirty (snd (resize_destination eng s))" "m_dirty (snd (resize_convert_to_u8 s))"
    "m_dirty (snd (resize_output s))"
  using assms
  by (simp_all add: resize_size_def size_fn_keeps resize_tmp_def resize_input_def
      resize_convert_to_fp32_def resize_source_def resize_destination_def resize_convert_to_u8_def
      resize_output_def set_image_dirty Let_def split: option.splits)

lemma resize_keeps_dirty: "m_dirty s \<Longrightarrow> m_dirty (snd (resize eng w h s))"
  unfolding resize_def
  by (rule run_all_keeps[where P = m_dirty]) (auto simp: resize_steps_keep_dirty)

lemma set_scale_dirty:
  "m_dirty (snd (set_scale x s)) =
     (m_dirty s \<or> \<not> is_close (m_scale s) (m_scale (snd (set_scale x s))) (flit (1 / 100)))"
  by (simp add: set_scale_def Let_def)

lemma load_result:
  "load eng s =
     (if eng (calls s) Effect_Load \<noteq> SUCCESS
      then (Some (Runtime_Error ''Load failed.''),
            log_error ''Failed to initialize effect.'' (s\<lparr>calls := calls s @ [Effect_Load]\<rparr>))
      else (None, s\<lparr>calls := calls s @ [Effect_Load], m_dirty := False\<rparr>))"
  by (simp add: load_def engine_call_def)

lemma run_all_Cons_None:
  "run_all (f # fs) s = (None, s') \<longleftrightarrow> (\<exists>s1. f s = (None, s1) \<and> run_all fs s1 = (None, s'))"
  by (cases "f s") (auto simp: and_then_def split: option.splits)

lemma set_image_keeps:
  "m_tmp (snd (set_image eng c msg s)) = m_tmp s"
  "m_input (snd (set_image eng c msg s)) = m_input s"
  "m_convert_to_fp32 (snd (set_image eng c msg s)) = m_convert_to_fp32 s"
  "m_source (snd (set_image eng c msg s)) = m_source s"
  "m_destination (snd (set_image eng c msg s)) = m_destination s"
  "m_convert_to_u8 (snd (set_image eng c msg s)) = m_convert_to_u8 s"
  "m_output (snd (set_image eng c msg s)) = m_output s"
  "m_cache_input_size (snd (set_image eng c msg s)) = m_cache_input_size s"
  "m_cache_output_size (snd (set_image eng c msg s)) = m_cache_output_size s"
  by (simp_all add: set_image_def engine_call_def log_error_def)

lemma resize_steps_keep_tmp:
  assumes "m_tmp s = Some t"
  shows "m_tmp (snd (resize_size w h s)) = Some t" "m_tmp (snd (resize_tmp s)) = Some t"
    "m_tmp (snd (resize_input s)) = Some t" "m_tmp (snd (resize_convert_to_fp32 s)) = Some t"
    "m_tmp (snd (resize_source eng s)) = Some t" "m_tmp (snd (resize_destination eng s)) = Some t"
    "m_tmp (snd (resize_convert_to_u8 s)) = Some t" "m_tmp (snd (resize_output s)) = Some t"
  using assms
  by (simp_all add: resize_size_def size_fn_keeps resize_tmp_def resize_input_def
      resize_convert_to_fp32_def resize_source_def resize_destination_def resize_convert_to_u8_def
      resize_output_def set_image_keeps Let_def split: option.splits)

lemma resize_keeps_tmp: "m_tmp s = Some t \<Longrightarrow> m_tmp (snd (resize eng w h s)) = Some t"
  unfolding resize_def
  by (rule run_all_keeps[where P = "\<lambda>s. m_tmp s = Some t"]) (auto simp: resize_steps_keep_tmp)

lemma process_steps_keep_tmp:
  assumes "m_tmp s = Some t"
  shows "m_tmp (snd (reload_if_dirty eng s)) = Some t" "m_tmp (snd (copy_texture eng s)) = Some t"
    "m_tmp (snd (transfer eng a b msg s)) = Some t" "m_tmp (snd (run_effect eng s)) = Some t"
  using assms
  by (simp_all add: reload_if_dirty_def load_result copy_texture_def transfer_def run_effect_def
      engine_call_def log_error_def)

lemma process_keeps_tmp:
  assumes "m_tmp s = Some t"
  shows "m_tmp (snd (process eng tex s)) = Some t"
proof -
  let ?steps = "[resize eng (tex_width tex) (tex_height tex),
              reload_if_dirty eng,
              copy_texture eng,
              transfer eng Input Convert_To_FP32 ''Failed to transfer processing result to output.'',
              transfer eng Convert_To_FP32 Source ''Failed to transfer input to processing source.'',
              run_effect eng,
              transfer eng Destination Convert_To_U8 ''Failed to transfer processing result to output.'',
              transfer eng Convert_To_U8 Output ''Failed to transfer processing result to output.'']"
  obtain e s1 where r: "run_all ?steps s = (e, s1)"
    by (cases "run_all ?steps s")
  have "m_tmp (snd (run_all ?steps s)) = Some t"
    by (rule run_all_keeps[where P = "\<lambda>s. m_tmp s = Some t"])
       (auto simp: resize_keeps_tmp process_steps_keep_tmp assms)
  then have "m_tmp s1 = Some t"
    by (simp only: r snd_conv)
  then show ?thesis
    unfolding process_def r by (simp split: option.splits)
qed

lemma resize_tmp_result:
  "resize_tmp s = (None, s') \<Longrightarrow>
     m_cache_input_size s' = m_cache_input_size s \<and> m_cache_output_size s' = m_cache_output_size s
     \<and> (m_tmp s = None \<longrightarrow> m_tmp s' = Some \<lparr>width = fst (m_cache_output_size s), height = snd (m_cache_output_size s),
                                 format = RGBA, component = UINT8, layout = PLANAR\<rparr>)"
  by (auto simp: resize_tmp_def split: if_splits)

lemma resize_input_result:
  "resize_input s = (None, s') \<Longrightarrow>
     m_cache_input_size s' = m_cache_input_size s \<and> m_cache_output_size s' = m_cache_output_size s
     \<and> texture_fits (m_input s') (m_cache_input_size s')"
  by (auto simp: resize_input_def texture_fits_def texture_resize_def split: option.splits if_splits)

lemma resize_convert_to_fp32_result:
  "resize_convert_to_fp32 s = (None, s') \<Longrightarrow>
     m_cache_input_size s' = m_cache_input_size s \<and> m_cache_output_size s' = m_cache_output_size s
     \<and> m_input s' = m_input s
     \<and> image_fits (m_convert_to_fp32 s') (m_cache_input_size s')"
  by (auto simp: resize_convert_to_fp32_def image_fits_def image_resize_def split: option.splits if_splits)

lemma set_image_None:
  "set_image eng c msg s = (None, s') \<Longrightarrow> s' = s\<lparr>calls := calls s @ [c], m_dirty := True\<rparr>"
  by (auto simp: set_image_def engine_call_def split: if_splits)

lemma resize_source_result:
  "resize_source eng s = (None, s') \<Longrightarrow>
     m_cache_input_size s' = m_cache_input_size s \<and> m_cache_output_size s' = m_cache_output_size s
     \<and> m_input s' = m_input s \<and> m_convert_to_fp32 s' = m_convert_to_fp32 s
     \<and> image_fits (m_source s') (m_cache_input_size s')"
  by (auto simp: resize_source_def image_fits_def image_resize_def Let_def
      split: option.splits if_splits dest!: set_image_None)

lemma resize_destination_result:
  "resize_destination eng s = (None, s') \<Longrightarrow>
     m_cache_input_size s' = m_cache_input_size s \<and> m_cache_output_size s' = m_cache_output_size s
     \<and> m_input s' = m_input s \<and> m_convert_to_fp32 s' = m_convert_to_fp32 s \<and> m_source s' = m_source s
     \<and> image_fits (m_destination s') (m_cache_output_size s')"
  by (auto simp: resize_destination_def image_fits_def image_resize_def Let_def
      split: option.splits if_splits dest!: set_image_None)

lemma resize_convert_to_u8_result:
  "resize_convert_to_u8 s = (None, s') \<Longrightarrow>
     m_cache_input_size s' = m_cache_input_size s \<and> m_cache_output_size s' = m_cache_output_size s
     \<and> m_input s' = m_input s \<and> m_convert_to_fp32 s' = m_convert_to_fp32 s \<and> m_source s' = m_source s
     \<and> m_destination s' = m_destination s
     \<and> image_fits (m_convert_to_u8 s') (m_cache_output_size s')"
  by (auto simp: resize_convert_to_u8_def image_fits_def image_resize_def split: option.splits if_splits)

lemma resize_output_result:
  "resize_output s = (None, s') \<Longrightarrow>
     m_cache_input_size s' = m_cache_input_size s \<and> m_cache_output_size s' = m_cache_output_size s
     \<and> m_input s' = m_input s \<and> m_convert_to_fp32 s' = m_convert_to_fp32 s \<and> m_source s' = m_source s
     \<and> m_destination s' = m_destination s \<and> m_convert_to_u8 s' = m_convert_to_u8 s
     \<and> texture_fits (m_output s') (m_cache_output_size s')"
  by (auto simp: resize_output_def texture_fits_def texture_resize_def split: option.splits if_splits)

lemma resize_fits:
  assumes "resize eng w h s = (None, s')"
  shows "texture_fits (m_input s') (m_cache_input_size s')
    \<and> image_fits (m_convert_to_fp32 s') (m_cache_input_size s')
    \<and> image_fits (m_source s') (m_cache_input_size s')
    \<and> image_fits (m_destination s') (m_cache_output_size s')
    \<and> image_fits (m_convert_to_u8 s') (m_cache_output_size s')
    \<and> texture_fits (m_output s') (m_cache_output_size s')
    \<and> m_cache_output_size s' = m_cache_output_size (snd (resize_size w h s))"
proof -
  from assms obtain s1 s2 s3 s4 s5 s6 s7 where
    1: "resize_size w h s = (None, s1)" and 2: "resize_tmp s1 = (None, s2)"
    and 3: "resize_input s2 = (None, s3)" and 4: "resize_convert_to_fp32 s3 = (None, s4)"
    and 5: "resize_source eng s4 = (None, s5)" and 6: "resize_destination eng s5 = (None, s6)"
    and 7: "resize_convert_to_u8 s6 = (None, s7)" and 8: "resize_output s7 = (None, s')"
    unfolding resize_def run_all_Cons_None by auto
  show ?thesis
    using resize_tmp_result[OF 2] resize_input_result[OF 3] resize_convert_to_fp32_result[OF 4]
      resize_source_result[OF 5] resize_destination_result[OF 6] resize_convert_to_u8_result[OF 7]
      resize_output_result[OF 8] 1
    by auto
qed

lemma resize_allocates_tmp:
  assumes "m_tmp s = None" and "fst (resize_size w h s) = None"
  shows "m_tmp (snd (resize eng w h s)) =
    Some \<lparr>width = fst (m_cache_output_size (snd (resize_size w h s))),
          height = snd (m_cache_output_size (snd (resize_size w h s))),
          format = RGBA, component = UINT8, layout = PLANAR\<rparr>"
proof -
  define s1 where "s1 = snd (resize_size w h s)"
  define t where "t = \<lparr>width = fst (m_cache_output_size s1), height = snd (m_cache_output_size s1),
          format = RGBA, component = UINT8, layout = PLANAR\<rparr>"
  define s2 where "s2 = s1\<lparr>m_tmp := Some t\<rparr>"
  have 1: "resize_size w h s = (None, s1)" using assms(2) by (simp add: s1_def prod_eq_iff)
  have n: "m_tmp s1 = None" using assms(1) by (simp add: s1_def resize_size_def size_fn_keeps)
  have 2: "resize_tmp s1 = (None, s2)" using n by (simp add: resize_tmp_def s2_def t_def)
  have "resize eng w h s = run_all [resize_input, resize_convert_to_fp32,
              resize_source eng, resize_destination eng, resize_convert_to_u8, resize_output] s2"
    by (simp add: resize_def 1 2 and_then_def)
  moreover have "m_tmp (snd (run_all [resize_input, resize_convert_to_fp32,
              resize_source eng, resize_destination eng, resize_convert_to_u8, resize_output] s2)) = Some t"
    by (rule run_all_keeps[where P = "\<lambda>s. m_tmp s = Some t"])
       (auto simp: resize_steps_keep_tmp s2_def)
  ultimately show ?thesis by (simp add: t_def s1_def)
qed

lemma rd_wr: "rd r (wr r v s) = v"
  by (cases r) simp_all

lemma wr_wr: "wr r v (wr r v' s) = wr r v s"
  by (cases r) simp_all

lemma f64_of_u32_exact: "f64_of_u32 w = Finite (of_nat (unat w))"
proof -
  have "unat w < 2 ^ 32" using unsigned_less[of w, where ?'a = nat] by simp
  then have b: "int (unat w) < 2 ^ 32" by (metis of_nat_less_numeral_power_cancel_iff)
  have "rnd 53 1023 (of_int (int (unat w))) = Finite (of_int (int (unat w)))"
  proof (rule rnd_exact[where k = "int (unat w)" and u = 0])
    show "(of_int (int (unat w)) :: rat) = of_int (int (unat w)) * 2 powi 0" by simp
    show "\<bar>int (unat w)\<bar> < 2 ^ nat 53" using b by simp
    show "(0::int) < 53" by simp
    show "(2::int) - 1023 - 53 \<le> 0" by simp
    have lt: "(of_int (int (unat w)) :: rat) < 2 ^ 32"
      using b by (metis of_int_less_numeral_power_cancel_iff)
    have le: "(2::rat) ^ 32 \<le> 2 ^ 1024"
      by (rule power_increasing) simp_all
    have p: "(2::rat) powi (1023 + 1) = 2 ^ 1024"
      by (simp only: power_int_def) simp
    have a: "\<bar>of_int (int (unat w)) :: rat\<bar> = of_int (int (unat w))"
      by (simp del: of_nat_unat)
    show "\<bar>of_int (int (unat w)) :: rat\<bar> < 2 powi (1023 + 1)"
      unfolding a p by (rule order.strict_trans2[OF lt le])
  qed
  then show ?thesis by (simp add: f64_of_u32_def rnd64_def del: of_nat_unat)
qed

lemma rnd64_one: "rnd64 1 = Finite 1"
  by (simp add: fp_eval cong: let_eval_cong)

lemma lround_of_nat: "k < 2 ^ 31 \<Longrightarrow> lround (Finite (of_nat k)) = Some (int k)"
proof -
  assume k: "k < 2 ^ 31"
  have f: "\<lfloor>(of_nat k :: rat) + 1 / 2\<rfloor> = int k"
    by (simp add: floor_eq_iff)
  have "int k < 2 ^ 31" using k by (metis of_nat_less_numeral_power_cancel_iff)
  then show ?thesis by (simp add: f)
qed

lemma max_size_cases:
  "max_size sc = (960, 540) \<or> max_size sc = (1280, 720) \<or> max_size sc = (1920, 1080)"
  by (simp add: max_size_def)

lemma clamp_height_small: "unat (clamp_u32 n min_height (snd (max_size sc))) < 2 ^ 31"
  using max_size_cases[of sc]
  by (auto simp: clamp_u32_def min_height_def word_less_nat_alt)

lemma float_on_grid:
  assumes "is_float (Finite c)" and "1 \<le> c"
  shows "\<exists>m::int. c = of_int m / 2 ^ 23"
proof -
  define e where "e = ilog2 \<bar>c\<bar>"
  define ue where "ue = max (e - 23) (- 149)"
  define K where "K = rne (c / 2 powi ue)"
  have c0: "c \<noteq> 0" "0 < \<bar>c\<bar>" using assms(2) by simp_all
  have "(2::rat) powi 0 \<le> \<bar>c\<bar>" using assms(2) by simp
  then have "0 \<le> e" unfolding e_def by (rule ilog2_ge[OF c0(2)])
  then have ue: "- 23 \<le> ue" by (simp add: ue_def)
  have "rnd 24 127 c = Finite c" using assms(1) by (simp add: rnd32_def)
  then have c: "c = of_int K * 2 powi ue"
    using c0 by (simp add: rnd_def Let_def e_def[symmetric] ue_def[symmetric] K_def[symmetric]
        split: if_splits)
  have "(2::rat) powi ue = 2 powi (ue + 23) / 2 ^ 23"
    using power_int_diff[of "2::rat" "ue + 23" 23] by simp
  also have "(2::rat) powi (ue + 23) = of_int (2 ^ nat (ue + 23))"
    using ue by (simp add: power_int_def)
  finally have "c = of_int (K * 2 ^ nat (ue + 23)) / 2 ^ 23"
    using c by simp
  then show ?thesis by blast
qed

lemma rnd32_two: "rnd32 2 = Finite 2" "rnd32 (- 2) = Finite (- 2)"
  by (simp_all add: fp_eval cong: let_eval_cong)

lemma rnd32_grid_exact:
  assumes "\<bar>k\<bar> \<le> 2 ^ 24"
  shows "rnd32 (of_int k / 2 ^ 23) = Finite (of_int k / 2 ^ 23)"
proof (cases "\<bar>k\<bar> < 2 ^ 24")
  case True
  have q: "(of_int k / 2 ^ 23 :: rat) = of_int k * 2 powi (- 23)"
    by (simp add: powi_neg_numeral)
  have "\<bar>of_int k :: rat\<bar> < 2 ^ 24"
    using True by (metis of_int_abs of_int_less_numeral_power_cancel_iff)
  then have b: "\<bar>of_int k / 2 ^ 23 :: rat\<bar> < 2"
    by (simp add: abs_divide field_simps)
  have "rnd 24 127 (of_int k / 2 ^ 23) = Finite (of_int k / 2 ^ 23)"
  proof (rule rnd_exact[where k = k and u = "- 23"])
    show "(of_int k / 2 ^ 23 :: rat) = of_int k * 2 powi (- 23)" by (rule q)
    show "\<bar>k\<bar> < 2 ^ nat 24" using True by simp
    show "(0::int) < 24" by simp
    show "(2::int) - 127 - 24 \<le> - 23" by simp
    have "(2::rat) \<le> 2 powi (127 + 1)" by (simp add: powi_numeral)
    then show "\<bar>of_int k / 2 ^ 23 :: rat\<bar> < 2 powi (127 + 1)" using b by linarith
  qed
  then show ?thesis by (simp add: rnd32_def)
next
  case False
  then have "k = 2 ^ 24 \<or> k = - (2 ^ 24)" using assms by linarith
  then show ?thesis by (auto simp: rnd32_two)
qed

lemma rnd32_far:
  assumes "2 \<le> \<bar>q\<bar>" and "\<bar>q\<bar> \<le> 4"
  shows "\<exists>r. rnd32 q = Finite r \<and> 2 \<le> \<bar>r\<bar> \<and> \<bar>r\<bar> \<le> 4"
proof -
  define e where "e = ilog2 \<bar>q\<bar>"
  define ue where "ue = max (e - 23) (- 149)"
  define P where "P = (2::rat) powi ue"
  define r where "r = of_int (rne (q / P)) * P"
  have q0: "q \<noteq> 0" "0 < \<bar>q\<bar>" using assms(1) by auto
  have "(2::rat) powi 1 \<le> \<bar>q\<bar>" using assms(1) by simp
  then have e1: "1 \<le> e" unfolding e_def by (rule ilog2_ge[OF q0(2)])
  have "\<bar>q\<bar> < 2 powi 3" using assms(2) by (simp add: powi_numeral)
  then have e3: "e < 3" unfolding e_def by (rule ilog2_less[OF q0(2)])
  have ue: "ue = e - 23" using e1 by (simp add: ue_def)
  have P: "0 < P" by (simp add: P_def)
  define N where "N = (2::int) ^ nat (1 - ue)"
  define M where "M = (2::int) ^ nat (2 - ue)"
  have N: "of_int N = 2 / P"
    using e3 power_int_diff[of "2::rat" 1 ue] by (simp add: N_def P_def ue power_int_def)
  have M: "of_int M = 4 / P"
    using e3 power_int_diff[of "2::rat" 2 ue] by (simp add: M_def P_def ue power_int_def)
  have NP: "of_int N * P = 2" "of_int M * P = 4" using P by (simp_all add: N M)
  have r: "2 \<le> \<bar>r\<bar> \<and> \<bar>r\<bar> \<le> 4"
  proof (cases "0 < q")
    case True
    have "of_int N \<le> q / P" "q / P \<le> of_int M"
      using assms True P by (simp_all add: N M divide_le_cancel)
    then have "N \<le> rne (q / P)" "rne (q / P) \<le> M"
      by (simp_all add: rne_ge rne_le)
    then have "(of_int N :: rat) \<le> of_int (rne (q / P))" "(of_int (rne (q / P)) :: rat) \<le> of_int M"
      by (simp_all only: of_int_le_iff)
    then have "of_int N * P \<le> r" "r \<le> of_int M * P"
      unfolding r_def using P by (simp_all only: mult_le_cancel_right_pos)
    then show ?thesis by (simp add: NP)
  next
    case False
    then have neg: "q < 0" using q0 by simp
    have a: "q \<le> - 2" "- 4 \<le> q" using assms neg by simp_all
    have "q / P \<le> (- 2) / P" "(- 4) / P \<le> q / P"
      using a P by (simp_all only: divide_right_mono less_imp_le)
    then have "q / P \<le> of_int (- N)" "of_int (- M) \<le> q / P"
      by (simp_all add: N M)
    then have "rne (q / P) \<le> - N" "- M \<le> rne (q / P)"
      by (simp_all only: rne_ge rne_le)
    then have "(of_int (rne (q / P)) :: rat) \<le> of_int (- N)" "(of_int (- M) :: rat) \<le> of_int (rne (q / P))"
      by (simp_all only: of_int_le_iff)
    then have "r \<le> of_int (- N) * P" "of_int (- M) * P \<le> r"
      unfolding r_def using P by (simp_all only: mult_le_cancel_right_pos)
    then have "r \<le> - 2" "- 4 \<le> r" using NP by simp_all
    then show ?thesis by simp
  qed
  have r0: "0 < \<bar>r\<bar>" "\<bar>r\<bar> < 2 powi 3"
    using r by (auto simp: powi_numeral)
  have "ilog2 \<bar>r\<bar> < 3" by (rule ilog2_less[OF r0])
  then have "rnd 24 127 q = Finite r"
    using q0 by (simp add: rnd_def Let_def e_def[symmetric] ue_def[symmetric] P_def[symmetric]
        r_def[symmetric])
  then show ?thesis using r by (auto simp: rnd32_def)
qed

lemma supported_on_grid:
  assumes "d \<in> set supported_scale_factors"
  shows "\<exists>j::int. d = Finite (of_int j / 2 ^ 23) \<and> 1 \<le> (of_int j / 2 ^ 23 :: rat) \<and> (of_int j / 2 ^ 23 :: rat) \<le> 4"
proof -
  have "d = Finite (of_int 11184811 / 2 ^ 23) \<or> d = Finite (of_int 12582912 / 2 ^ 23)
      \<or> d = Finite (of_int 16777216 / 2 ^ 23) \<or> d = Finite (of_int 25165824 / 2 ^ 23)
      \<or> d = Finite (of_int 33554432 / 2 ^ 23)"
    using assms by (simp add: supported_values)
  then show ?thesis
  proof (elim disjE)
    assume "d = Finite (of_int 11184811 / 2 ^ 23)"
    then show ?thesis by (intro exI[of _ 11184811]) simp
  next
    assume "d = Finite (of_int 12582912 / 2 ^ 23)"
    then show ?thesis by (intro exI[of _ 12582912]) simp
  next
    assume "d = Finite (of_int 16777216 / 2 ^ 23)"
    then show ?thesis by (intro exI[of _ 16777216]) simp
  next
    assume "d = Finite (of_int 25165824 / 2 ^ 23)"
    then show ?thesis by (intro exI[of _ 25165824]) simp
  next
    assume "d = Finite (of_int 33554432 / 2 ^ 23)"
    then show ?thesis by (intro exI[of _ 33554432]) simp
  qed
qed

lemma entry_key:
  assumes q: "q = of_int m / 2 ^ 23" and q1: "1 \<le> q" and q4: "q \<le> 4"
    and d: "dv = of_int j / 2 ^ 23" and d1: "1 \<le> dv" and d4: "dv \<le> 4"
  shows "\<exists>k. fabs (fsub rnd32 (Finite dv) (Finite q)) = Finite k \<and> k \<le> 4
    \<and> (\<bar>dv - q\<bar> \<le> 2 \<longrightarrow> k = \<bar>dv - q\<bar>) \<and> (2 \<le> \<bar>dv - q\<bar> \<longrightarrow> 2 \<le> k)"
proof (cases "\<bar>dv - q\<bar> \<le> 2")
  case True
  have diff: "dv - q = of_int (j - m) / 2 ^ 23"
    by (simp add: q d diff_divide_distrib)
  have "\<bar>of_int (j - m) :: rat\<bar> \<le> 2 ^ 24"
    using True unfolding diff by (simp add: abs_divide field_simps)
  then have "\<bar>j - m\<bar> \<le> 2 ^ 24"
    by (metis of_int_abs of_int_le_numeral_power_cancel_iff)
  then have "rnd32 (dv - q) = Finite (dv - q)"
    unfolding diff by (rule rnd32_grid_exact)
  then show ?thesis using True by simp
next
  case False
  have "\<bar>dv - q\<bar> \<le> 4" using q1 q4 d1 d4 by (simp add: abs_le_iff)
  with False obtain r where "rnd32 (dv - q) = Finite r" "2 \<le> \<bar>r\<bar>" "\<bar>r\<bar> \<le> 4"
    using rnd32_far[of "dv - q"] by auto
  then show ?thesis using False by simp
qed

lemma closest_scan:
  fixes key :: "fp \<Rightarrow> rat"
  assumes "\<And>d. d \<in> set xs \<Longrightarrow> fabs (fsub rnd32 d factor) = Finite (key d) \<and> key d < M"
    and "acc = foldl (\<lambda>minimal delta.
                   let value = fabs (fsub rnd32 delta factor)
                   in if fgt (snd minimal) value then (delta, value) else minimal)
            (b0, Finite M) xs"
  shows "(xs = [] \<and> acc = (b0, Finite M))
        \<or> (\<exists>pre post. xs = pre @ fst acc # post \<and> snd acc = Finite (key (fst acc))
              \<and> (\<forall>d\<in>set pre. key (fst acc) < key d) \<and> (\<forall>d\<in>set post. key (fst acc) \<le> key d))"
  using assms
proof (induction xs arbitrary: acc rule: rev_induct)
  case Nil
  then show ?case by simp
next
  case (snoc y xs)
  define step where "step = (\<lambda>minimal delta.
                   let value = fabs (fsub rnd32 delta factor)
                   in if fgt (snd minimal) value then (delta, value) else minimal)"
  define acc0 where "acc0 = foldl step (b0, Finite M) xs"
  have acc: "acc = step acc0 y"
    using snoc.prems(2) by (simp add: acc0_def step_def)
  have y: "fabs (fsub rnd32 y factor) = Finite (key y)" "key y < M"
    using snoc.prems(1)[of y] by simp_all
  have ih: "(xs = [] \<and> acc0 = (b0, Finite M))
        \<or> (\<exists>pre post. xs = pre @ fst acc0 # post \<and> snd acc0 = Finite (key (fst acc0))
              \<and> (\<forall>d\<in>set pre. key (fst acc0) < key d) \<and> (\<forall>d\<in>set post. key (fst acc0) \<le> key d))"
  proof (rule snoc.IH)
    show "fabs (fsub rnd32 d factor) = Finite (key d) \<and> key d < M" if "d \<in> set xs" for d
      using snoc.prems(1)[of d] that by simp
    show "acc0 = foldl (\<lambda>minimal delta.
                   let value = fabs (fsub rnd32 delta factor)
                   in if fgt (snd minimal) value then (delta, value) else minimal)
            (b0, Finite M) xs"
      by (simp add: acc0_def step_def)
  qed
  have "\<exists>pre post. xs @ [y] = pre @ fst (step acc0 y) # post \<and> snd (step acc0 y) = Finite (key (fst (step acc0 y)))
              \<and> (\<forall>d\<in>set pre. key (fst (step acc0 y)) < key d) \<and> (\<forall>d\<in>set post. key (fst (step acc0 y)) \<le> key d)"
    using ih
  proof
    assume "xs = [] \<and> acc0 = (b0, Finite M)"
    then have "step acc0 y = (y, Finite (key y))" "xs = []"
      using y by (simp_all add: step_def fgt_def Let_def)
    then show ?thesis by (intro exI[of _ "[]"]) simp
  next
    assume "\<exists>pre post. xs = pre @ fst acc0 # post \<and> snd acc0 = Finite (key (fst acc0))
              \<and> (\<forall>d\<in>set pre. key (fst acc0) < key d) \<and> (\<forall>d\<in>set post. key (fst acc0) \<le> key d)"
    then obtain pre post where pp: "xs = pre @ fst acc0 # post" "snd acc0 = Finite (key (fst acc0))"
      "\<forall>d\<in>set pre. key (fst acc0) < key d" "\<forall>d\<in>set post. key (fst acc0) \<le> key d"
      by blast
    show ?thesis
    proof (cases "key y < key (fst acc0)")
      case True
      then have s: "step acc0 y = (y, Finite (key y))"
        using y pp(2) by (simp add: step_def fgt_def Let_def)
      have "\<forall>d\<in>set xs. key y < key d"
        using True pp by (subst pp(1)) fastforce
      then show ?thesis
        unfolding s by (intro exI[of _ xs] exI[of _ "[]"]) simp
    next
      case False
      then have s: "step acc0 y = acc0"
        using y pp(2) by (simp add: step_def fgt_def Let_def)
      show ?thesis
        unfolding s using pp False
        by (intro exI[of _ pre] exI[of _ "post @ [y]"]) auto
    qed
  qed
  then show ?case
    unfolding acc by simp
qed

lemma clamp_float_finite:
  assumes "is_float x" and "x \<noteq> NaN"
  shows "\<exists>q. clamp_float x (Finite 1) (Finite 4) = Finite q \<and> 1 \<le> q \<and> q \<le> 4 \<and> is_float (Finite q)"
proof -
  have f: "is_float (Finite 1)" "is_float (Finite 4)"
    by (simp_all add: fp_eval cong: let_eval_cong)
  show ?thesis
  proof (cases x)
    case (Finite a)
    then show ?thesis using assms(1) f by (auto simp: clamp_float_def)
  next
    case PInf
    then show ?thesis using f by (simp add: clamp_float_def)
  next
    case NInf
    then show ?thesis using f by (simp add: clamp_float_def)
  next
    case NaN
    then show ?thesis using assms(2) by simp
  qed
qed

lemma find_closest_scale_factor_nearest:
  assumes "is_float (Finite q)" and "1 \<le> q" and "q \<le> 4"
  shows "\<exists>pre post. supported_scale_factors = pre @ find_closest_scale_factor (Finite q) # post
         \<and> (\<forall>d\<in>set pre. nearer (find_closest_scale_factor (Finite q)) d (Finite q))
         \<and> (\<forall>d\<in>set post. \<not> nearer d (find_closest_scale_factor (Finite q)) (Finite q))"
proof -
  define key where "key = (\<lambda>d. case fabs (fsub rnd32 d (Finite q)) of Finite k \<Rightarrow> k | _ \<Rightarrow> 0)"
  define M :: rat where "M = 340282346638528859811704183484516925440"
  define best where "best = find_closest_scale_factor (Finite q)"
  obtain m :: int where grid: "q = of_int m / 2 ^ 23"
    using float_on_grid[OF assms(1,2)] by blast
  have entry: "\<exists>dv. d = Finite dv \<and> fabs (fsub rnd32 d (Finite q)) = Finite (key d) \<and> key d < M
      \<and> (\<bar>dv - q\<bar> \<le> 2 \<longrightarrow> key d = \<bar>dv - q\<bar>) \<and> (2 \<le> \<bar>dv - q\<bar> \<longrightarrow> 2 \<le> key d)"
    if din: "d \<in> set supported_scale_factors" for d
  proof -
    obtain j :: int where j: "d = Finite (of_int j / 2 ^ 23)" "1 \<le> (of_int j / 2 ^ 23 :: rat)"
        "(of_int j / 2 ^ 23 :: rat) \<le> 4"
      using supported_on_grid[OF din] by blast
    obtain k where k: "fabs (fsub rnd32 (Finite (of_int j / 2 ^ 23)) (Finite q)) = Finite k" "k \<le> 4"
        "\<bar>of_int j / 2 ^ 23 - q\<bar> \<le> 2 \<longrightarrow> k = \<bar>of_int j / 2 ^ 23 - q\<bar>"
        "2 \<le> \<bar>of_int j / 2 ^ 23 - q\<bar> \<longrightarrow> 2 \<le> k"
      using entry_key[OF grid assms(2,3) refl j(2,3)] by blast
    have "key d = k" using k(1) by (simp add: key_def j(1))
    then show ?thesis using k j(1) by (intro exI[of _ "of_int j / 2 ^ 23"]) (simp add: M_def)
  qed
  have scan: "(supported_scale_factors = [] \<and> acc = (Finite 0, Finite M))
        \<or> (\<exists>pre post. supported_scale_factors = pre @ fst acc # post \<and> snd acc = Finite (key (fst acc))
              \<and> (\<forall>d\<in>set pre. key (fst acc) < key d) \<and> (\<forall>d\<in>set post. key (fst acc) \<le> key d))"
    if "acc = foldl (\<lambda>minimal delta.
                   let value = fabs (fsub rnd32 delta (Finite q))
                   in if fgt (snd minimal) value then (delta, value) else minimal)
            (Finite 0, Finite M) supported_scale_factors" for acc
    using entry that by (intro closest_scan) blast+
  have "best = fst (foldl (\<lambda>minimal delta.
                   let value = fabs (fsub rnd32 delta (Finite q))
                   in if fgt (snd minimal) value then (delta, value) else minimal)
            (Finite 0, Finite M) supported_scale_factors)"
    by (simp add: best_def find_closest_scale_factor_def FLT_MAX_value M_def)
  moreover have "supported_scale_factors \<noteq> []" by (simp add: supported_values)
  ultimately obtain pre post where pp: "supported_scale_factors = pre @ best # post"
      "\<forall>d\<in>set pre. key best < key d" "\<forall>d\<in>set post. key best \<le> key d"
    using scan[OF refl] by auto
  have least: "key best \<le> key d" if din: "d \<in> set supported_scale_factors" for d
  proof -
    have "d \<in> set pre \<or> d = best \<or> d \<in> set post"
      using din unfolding pp(1) by auto
    then show ?thesis
      using pp(2,3) by (auto intro: less_imp_le)
  qed
  have bin: "best \<in> set supported_scale_factors" by (subst pp(1)) simp
  obtain bv where b: "best = Finite bv"
      "\<bar>bv - q\<bar> \<le> 2 \<longrightarrow> key best = \<bar>bv - q\<bar>" "2 \<le> \<bar>bv - q\<bar> \<longrightarrow> 2 \<le> key best"
    using entry[OF bin] by blast
  have "\<exists>d\<in>set supported_scale_factors. key d \<le> 1"
  proof (cases "q \<le> 3")
    case True
    have "Finite 2 \<in> set supported_scale_factors" by (simp add: supported_values)
    moreover have "key (Finite 2) \<le> 1"
      using entry[OF calculation] True assms(2) by auto
    ultimately show ?thesis by blast
  next
    case False
    have "Finite 4 \<in> set supported_scale_factors" by (simp add: supported_values)
    moreover have "key (Finite 4) \<le> 1"
      using entry[OF calculation] False assms(3) by auto
    ultimately show ?thesis by blast
  qed
  then have kb: "key best \<le> 1" using least by fastforce
  then have eb: "key best = \<bar>bv - q\<bar>" "\<bar>bv - q\<bar> \<le> 1" using b(2,3) by linarith+
  have pre: "nearer best d (Finite q)" if din: "d \<in> set pre" for d
  proof -
    have "d \<in> set supported_scale_factors" using din by (subst pp(1)) simp
    from entry[OF this] obtain dv where dv: "d = Finite dv"
        "\<bar>dv - q\<bar> \<le> 2 \<longrightarrow> key d = \<bar>dv - q\<bar>" by blast
    have "key best < key d" using pp(2) din by blast
    then have "\<bar>bv - q\<bar> < \<bar>dv - q\<bar>" using dv(2) eb by linarith
    then show ?thesis by (simp add: b(1) dv(1))
  qed
  have post: "\<not> nearer d best (Finite q)" if din: "d \<in> set post" for d
  proof -
    have "d \<in> set supported_scale_factors" using din by (subst pp(1)) simp
    from entry[OF this] obtain dv where dv: "d = Finite dv"
        "\<bar>dv - q\<bar> \<le> 2 \<longrightarrow> key d = \<bar>dv - q\<bar>" by blast
    have "key best \<le> key d" using pp(3) din by blast
    then have "\<bar>bv - q\<bar> \<le> \<bar>dv - q\<bar>" using dv(2) eb by linarith
    then show ?thesis by (simp add: b(1) dv(1))
  qed
  show ?thesis
    using pp(1) pre post unfolding best_def by blast
qed

text \<open>
  Through \<^verbatim>\<open>resize\<close>, \<^verbatim>\<open>size\<close> takes the cache path whenever the scale equals the cached
  one, whatever the requested size; where \<^verbatim>\<open>size\<close> does calculate, the input size is
  within the bounds.
\<close>

lemma feq_eq: "feq x y \<Longrightarrow> x = y"
  by (cases x; cases y) simp_all

lemma resize_size_same_scale:
  assumes "feq (m_scale s) (m_cache_scale s)"
  shows "resize_size w h s = (None, s\<lparr>m_cache_input_size := (w, h)\<rparr>)"
proof -
  have e: "m_cache_scale s = m_scale s" using feq_eq[OF assms] by simp
  have hit: "cache_hit Cache_Input_Size (s\<lparr>m_cache_input_size := (w, h)\<rparr>)"
    using assms by (simp add: cache_hit_def)
  show ?thesis
    unfolding resize_size_def
    by (subst size_fn.simps) (simp add: hit cache_load_def Let_def e)
qed

lemma clamp_u32_bounds:
  "lo \<le> hi \<Longrightarrow> lo \<le> clamp_u32 v lo hi \<and> clamp_u32 v lo hi \<le> hi"
  by (auto simp: clamp_u32_def)

lemma max_size_above_min: "min_width \<le> fst (max_size sc)" "min_height \<le> snd (max_size sc)"
  using max_size_cases[of sc] by (auto simp: min_width_def min_height_def)

lemma calculate_input_size_in_bounds:
  assumes "calculate_input_size r (max_size sc) s = (None, s')"
  shows "min_width \<le> fst (rd r s') \<and> fst (rd r s') \<le> fst (max_size sc)
    \<and> min_height \<le> snd (rd r s') \<and> snd (rd r s') \<le> snd (max_size sc)"
  using assms clamp_u32_bounds[OF max_size_above_min(1)[of sc]] clamp_u32_bounds[OF max_size_above_min(2)[of sc]]
  by (auto simp: calculate_input_size_def wr_first_def wr_second_def rd_wr Let_def
      split: if_splits option.splits)

text \<open>Each step of \<^verbatim>\<open>resize\<close> after the negotiation, and \<^verbatim>\<open>resize\<close> as a whole.\<close>

lemma resize_input_exact:
  "resize_input s = (None, s\<lparr>m_input := Some (refit_texture (m_cache_input_size s) (m_input s))\<rparr>)"
  by (cases "m_input s") (auto simp: resize_input_def refit_texture_def texture_fits_def)

lemma resize_convert_to_fp32_exact:
  "resize_convert_to_fp32 s =
     (None, s\<lparr>m_convert_to_fp32 :=
                 Some (refit_image RGBA FP32 PLANAR (m_cache_input_size s) (m_convert_to_fp32 s))\<rparr>)"
  by (cases "m_convert_to_fp32 s") (auto simp: resize_convert_to_fp32_def refit_image_def image_fits_def)

lemma resize_convert_to_u8_exact:
  "resize_convert_to_u8 s =
     (None, s\<lparr>m_convert_to_u8 :=
                 Some (refit_image RGBA UINT8 INTERLEAVED (m_cache_output_size s) (m_convert_to_u8 s))\<rparr>)"
  by (cases "m_convert_to_u8 s") (auto simp: resize_convert_to_u8_def refit_image_def image_fits_def)

lemma resize_output_exact:
  "resize_output s = (None, s\<lparr>m_output := Some (refit_texture (m_cache_output_size s) (m_output s))\<rparr>)"
  by (cases "m_output s") (auto simp: resize_output_def refit_texture_def texture_fits_def)

lemma set_image_result:
  "set_image eng c msg s =
     (if eng (calls s) c \<noteq> SUCCESS
      then (Some (Runtime_Error ''SetImage failed.''), log_error msg (s\<lparr>calls := calls s @ [c]\<rparr>))
      else (None, s\<lparr>calls := calls s @ [c], m_dirty := True\<rparr>))"
  by (simp add: set_image_def engine_call_def)

lemma resize_source_exact:
  "resize_source eng s =
     (if image_fits (m_source s) (m_cache_input_size s) then (None, s)
      else set_image eng
             (Set_Input_Image_0 (refit_image BGR FP32 PLANAR (m_cache_input_size s) (m_source s)))
             ''Failed to set input image.''
             (s\<lparr>m_source := Some (refit_image BGR FP32 PLANAR (m_cache_input_size s) (m_source s))\<rparr>))"
  by (cases "m_source s") (auto simp: resize_source_def refit_image_def image_fits_def Let_def)

lemma resize_destination_exact:
  "resize_destination eng s =
     (if image_fits (m_destination s) (m_cache_output_size s) then (None, s)
      else set_image eng
             (Set_Output_Image_0 (refit_image BGR FP32 PLANAR (m_cache_output_size s) (m_destination s)))
             ''Failed to set output image.''
             (s\<lparr>m_destination := Some (refit_image BGR FP32 PLANAR (m_cache_output_size s) (m_destination s))\<rparr>))"
  by (cases "m_destination s") (auto simp: resize_destination_def refit_image_def image_fits_def Let_def)

lemma refit_image_fits: "image_fits b sz \<Longrightarrow> Some (refit_image f c l sz b) = b"
  by (cases b) (auto simp: refit_image_def image_fits_def)

lemma resize_size_keeps:
  "m_tmp (snd (resize_size w h s)) = m_tmp s"
  "m_input (snd (resize_size w h s)) = m_input s"
  "m_convert_to_fp32 (snd (resize_size w h s)) = m_convert_to_fp32 s"
  "m_source (snd (resize_size w h s)) = m_source s"
  "m_destination (snd (resize_size w h s)) = m_destination s"
  "m_convert_to_u8 (snd (resize_size w h s)) = m_convert_to_u8 s"
  "m_output (snd (resize_size w h s)) = m_output s"
  "calls (snd (resize_size w h s)) = calls s"
  by (simp_all add: resize_size_def size_fn_keeps)

lemma resize_after_size:
  assumes "fst (resize_size w h s) = None"
  shows
    "let isz = m_cache_input_size (snd (resize_size w h s));
         osz = m_cache_output_size (snd (resize_size w h s));
         src = refit_image BGR FP32 PLANAR isz (m_source s);
         dst = refit_image BGR FP32 PLANAR osz (m_destination s);
         src_ok = (image_fits (m_source s) isz \<or> eng (calls s) (Set_Input_Image_0 src) = SUCCESS);
         dst_ok = (image_fits (m_destination s) osz
                   \<or> eng (if image_fits (m_source s) isz then calls s
                           else calls s @ [Set_Input_Image_0 src]) (Set_Output_Image_0 dst) = SUCCESS);
         r = resize eng w h s
     in m_cache_input_size (snd r) = isz \<and> m_cache_output_size (snd r) = osz
        \<and> m_input (snd r) = Some (refit_texture isz (m_input s))
        \<and> m_convert_to_fp32 (snd r) = Some (refit_image RGBA FP32 PLANAR isz (m_convert_to_fp32 s))
        \<and> m_source (snd r) = Some src
        \<and> m_destination (snd r) = (if src_ok then Some dst else m_destination s)
        \<and> m_convert_to_u8 (snd r) =
            (if src_ok \<and> dst_ok then Some (refit_image RGBA UINT8 INTERLEAVED osz (m_convert_to_u8 s))
             else m_convert_to_u8 s)
        \<and> m_output (snd r) = (if src_ok \<and> dst_ok then Some (refit_texture osz (m_output s)) else m_output s)
        \<and> fst r = (if src_ok \<and> dst_ok then None else Some (Runtime_Error ''SetImage failed.''))"
proof -
  define s1 where "s1 = snd (resize_size w h s)"
  have 1: "resize_size w h s = (None, s1)"
    using assms by (simp add: s1_def prod_eq_iff)
  have k: "m_tmp s1 = m_tmp s" "m_input s1 = m_input s" "m_convert_to_fp32 s1 = m_convert_to_fp32 s"
    "m_source s1 = m_source s" "m_destination s1 = m_destination s"
    "m_convert_to_u8 s1 = m_convert_to_u8 s" "m_output s1 = m_output s" "calls s1 = calls s"
    by (simp_all add: s1_def resize_size_keeps)
  show ?thesis
    unfolding Let_def s1_def[symmetric] k[symmetric]
    by (simp add: resize_def 1 and_then_def resize_tmp_def resize_input_exact
      resize_convert_to_fp32_exact resize_source_exact resize_destination_exact
      resize_convert_to_u8_exact resize_output_exact set_image_result log_error_def refit_image_fits)
qed

text \<open>\<^verbatim>\<open>process\<close> after its \<^verbatim>\<open>resize\<close>: the reload, and the steps after it.\<close>

lemma process_snd:
  "snd (process eng tex s) =
     snd (run_all
             [resize eng (tex_width tex) (tex_height tex),
              reload_if_dirty eng,
              copy_texture eng,
              transfer eng Input Convert_To_FP32 ''Failed to transfer processing result to output.'',
              transfer eng Convert_To_FP32 Source ''Failed to transfer input to processing source.'',
              run_effect eng,
              transfer eng Destination Convert_To_U8 ''Failed to transfer processing result to output.'',
              transfer eng Convert_To_U8 Output ''Failed to transfer processing result to output.''] s)"
  unfolding process_def by (simp split: prod.splits option.splits)

lemma process_steps_keep_clean:
  assumes "\<not> m_dirty s \<and> n \<le> length (calls s) \<and> take n (calls s) = pre"
  shows "\<not> m_dirty (snd (copy_texture eng s)) \<and> n \<le> length (calls (snd (copy_texture eng s)))
      \<and> take n (calls (snd (copy_texture eng s))) = pre"
    "\<not> m_dirty (snd (transfer eng a b msg s)) \<and> n \<le> length (calls (snd (transfer eng a b msg s)))
      \<and> take n (calls (snd (transfer eng a b msg s))) = pre"
    "\<not> m_dirty (snd (run_effect eng s)) \<and> n \<le> length (calls (snd (run_effect eng s)))
      \<and> take n (calls (snd (run_effect eng s))) = pre"
  using assms
  by (simp_all add: copy_texture_def transfer_def run_effect_def engine_call_def log_error_def)

lemma process_tail_keeps_clean:
  assumes "\<not> m_dirty s \<and> n \<le> length (calls s) \<and> take n (calls s) = pre"
  shows "\<not> m_dirty (snd (run_all
             [transfer eng Input Convert_To_FP32 ''Failed to transfer processing result to output.'',
              transfer eng Convert_To_FP32 Source ''Failed to transfer input to processing source.'',
              run_effect eng,
              transfer eng Destination Convert_To_U8 ''Failed to transfer processing result to output.'',
              transfer eng Convert_To_U8 Output ''Failed to transfer processing result to output.''] s))
     \<and> n \<le> length (calls (snd (run_all
             [transfer eng Input Convert_To_FP32 ''Failed to transfer processing result to output.'',
              transfer eng Convert_To_FP32 Source ''Failed to transfer input to processing source.'',
              run_effect eng,
              transfer eng Destination Convert_To_U8 ''Failed to transfer processing result to output.'',
              transfer eng Convert_To_U8 Output ''Failed to transfer processing result to output.''] s)))
     \<and> take n (calls (snd (run_all
             [transfer eng Input Convert_To_FP32 ''Failed to transfer processing result to output.'',
              transfer eng Convert_To_FP32 Source ''Failed to transfer input to processing source.'',
              run_effect eng,
              transfer eng Destination Convert_To_U8 ''Failed to transfer processing result to output.'',
              transfer eng Convert_To_U8 Output ''Failed to transfer processing result to output.''] s))) = pre"
  by (rule run_all_keeps[where P = "\<lambda>s. \<not> m_dirty s \<and> n \<le> length (calls s) \<and> take n (calls s) = pre"])
     (auto simp: process_steps_keep_clean assms)

lemma process_after_resize:
  assumes r: "resize eng (tex_width tex) (tex_height tex) s = (None, s1)"
  shows "take (Suc (length (calls s1))) (calls (snd (process eng tex s))) =
           calls s1 @ [if m_dirty s1 then Effect_Load else Copy_Texture]"
    and "m_dirty (snd (process eng tex s)) = (m_dirty s1 \<and> eng (calls s1) Effect_Load \<noteq> SUCCESS)"
proof -
  let ?tail = "[transfer eng Input Convert_To_FP32 ''Failed to transfer processing result to output.'',
              transfer eng Convert_To_FP32 Source ''Failed to transfer input to processing source.'',
              run_effect eng,
              transfer eng Destination Convert_To_U8 ''Failed to transfer processing result to output.'',
              transfer eng Convert_To_U8 Output ''Failed to transfer processing result to output.'']"
  let ?n = "Suc (length (calls s1))"
  have p: "snd (process eng tex s) = snd (run_all (reload_if_dirty eng # copy_texture eng # ?tail) s1)"
    by (simp add: process_snd r and_then_def)
  consider (clean) "\<not> m_dirty s1" | (fails) "m_dirty s1" "eng (calls s1) Effect_Load \<noteq> SUCCESS"
    | (loads) "m_dirty s1" "eng (calls s1) Effect_Load = SUCCESS" by blast
  then have "take ?n (calls (snd (process eng tex s))) =
           calls s1 @ [if m_dirty s1 then Effect_Load else Copy_Texture]
     \<and> m_dirty (snd (process eng tex s)) = (m_dirty s1 \<and> eng (calls s1) Effect_Load \<noteq> SUCCESS)"
  proof cases
    case clean
    define s2 where "s2 = snd (copy_texture eng s1)"
    have q: "snd (process eng tex s) = snd (run_all ?tail s2)"
      using clean by (simp add: p reload_if_dirty_def and_then_def copy_texture_def s2_def)
    have "\<not> m_dirty s2 \<and> ?n \<le> length (calls s2) \<and> take ?n (calls s2) = calls s1 @ [Copy_Texture]"
      using clean by (simp add: s2_def copy_texture_def engine_call_def)
    from process_tail_keeps_clean[OF this, of eng] show ?thesis
      using clean unfolding q by simp
  next
    case fails
    then show ?thesis
      by (simp add: p reload_if_dirty_def load_result and_then_def log_error_def)
  next
    case loads
    define s2 where "s2 = snd (copy_texture eng (s1\<lparr>calls := calls s1 @ [Effect_Load], m_dirty := False\<rparr>))"
    have q: "snd (process eng tex s) = snd (run_all ?tail s2)"
      using loads by (simp add: p reload_if_dirty_def load_result and_then_def copy_texture_def s2_def)
    have "\<not> m_dirty s2 \<and> ?n \<le> length (calls s2) \<and> take ?n (calls s2) = calls s1 @ [Effect_Load]"
      by (simp add: s2_def copy_texture_def engine_call_def)
    from process_tail_keeps_clean[OF this, of eng] show ?thesis
      using loads unfolding q by simp
  qed
  then show "take (Suc (length (calls s1))) (calls (snd (process eng tex s))) =
           calls s1 @ [if m_dirty s1 then Effect_Load else Copy_Texture]"
    and "m_dirty (snd (process eng tex s)) = (m_dirty s1 \<and> eng (calls s1) Effect_Load \<noteq> SUCCESS)"
    by simp_all
qed

lemma process_resize_raises:
  assumes "fst (resize eng (tex_width tex) (tex_height tex) s) \<noteq> None"
  shows "snd (process eng tex s) = snd (resize eng (tex_width tex) (tex_height tex) s)"
  using assms
  by (cases "resize eng (tex_width tex) (tex_height tex) s") (auto simp: process_snd and_then_def)

section \<open>The claims\<close>

text \<open>
  C1. The claim: \<^verbatim>\<open>size\<close> serves its cached sizing only when the requested size and the
  scale both match the cached entry, and a \<^verbatim>\<open>resize\<close> to another size at the same scale
  negotiates afresh. The code does not: \<^verbatim>\<open>resize\<close> stores the requested size into
  \<^verbatim>\<open>_cache_input_size\<close> and passes that member as both \<^verbatim>\<open>size\<close> and \<^verbatim>\<open>input_size\<close>, and the
  test of line 160 compares \<^verbatim>\<open>input_size\<close> with \<^verbatim>\<open>_cache_input_size\<close>, that is the member with
  itself. After the constructor (160x90 at scale 1.5), \<^verbatim>\<open>resize(100, 100)\<close> leaves the
  input size at the raw 100x100 and the output size at the stale 240x135, while \<^verbatim>\<open>size\<close>
  called on the same object with variables of the caller's own negotiates 160x100 and
  240x150. (\<open>resize_size_same_scale\<close> has the cache path taken for every size.)
\<close>

theorem resize_serves_stale_sizing:
  "m_cache_input_size constructed = (160, 90) \<and> m_cache_output_size constructed = (240, 135)
   \<and> m_scale constructed = Finite (3 / 2)
   \<and> fst (resize engine_ok 100 100 constructed) = None
   \<and> m_scale (snd (resize engine_ok 100 100 constructed)) = Finite (3 / 2)
   \<and> m_cache_input_size (snd (resize engine_ok 100 100 constructed)) = (100, 100)
   \<and> m_cache_output_size (snd (resize engine_ok 100 100 constructed)) = (240, 135)
   \<and> fst (size_fn (Local 0) (Local 1) (Local 2) (caller (100, 100) constructed)) = None
   \<and> locals (snd (size_fn (Local 0) (Local 1) (Local 2) (caller (100, 100) constructed))) 1 = (160, 100)
   \<and> locals (snd (size_fn (Local 0) (Local 1) (Local 2) (caller (100, 100) constructed))) 2 = (240, 150)"
  by (simp add: constructed_def engine_ok_def caller_def model_eval fp_eval cong: let_eval_cong)

text \<open>
  C2. When the test of the output / input ratio fails, \<^verbatim>\<open>size\<close> sets the scale to the
  entry of the vector after the closest one and calls itself. The guard
  \<^verbatim>\<open>scale_idx < supported_scale_factors.size()\<close> holds for every scale, so it never stops
  that read: when the closest entry is the last one, the read at \<^verbatim>\<open>scale_idx + 1\<close> is past
  the end of the vector.
\<close>

theorem size_fn_next_entry_unchecked:
  assumes "\<not> cache_hit input_size s"
    and "size_compute size0 input_size output_size s = (None, s1)"
    and "invalid_scale_factor input_size output_size s1"
  shows "find_closest_scale_factor_index (m_scale s1) < length supported_scale_factors
    \<and> (find_closest_scale_factor_index (m_scale s1) + 1 < length supported_scale_factors \<longrightarrow>
         size_fn size0 input_size output_size s =
           (case size_fn size0 input_size output_size
                   (s1\<lparr>m_scale := supported_scale_factors ! (find_closest_scale_factor_index (m_scale s1) + 1)\<rparr>) of
              (Some e, s2) \<Rightarrow> (Some e, s2)
            | (None, s2) \<Rightarrow> (None, cache_store input_size output_size s2)))
    \<and> (find_closest_scale_factor_index (m_scale s1) + 1 = length supported_scale_factors \<longrightarrow>
         size_fn size0 input_size output_size s =
           (Some (Out_Of_Bounds_Read (length supported_scale_factors)), s1))"
  using assms find_closest_scale_factor_index_less[of "m_scale s1"]
  by (subst (1 3) size_fn.simps) (simp add: vector_at_def Let_def)

theorem size_fn_next_entry_unchecked_witness:
  "\<not> cache_hit (Local 1) last_entry_state
   \<and> fst (size_compute (Local 0) (Local 1) (Local 2) last_entry_state) = None
   \<and> invalid_scale_factor (Local 1) (Local 2) (snd (size_compute (Local 0) (Local 1) (Local 2) last_entry_state))
   \<and> find_closest_scale_factor_index (Finite (15 / 4)) + 1 = length supported_scale_factors
   \<and> fst (size_fn (Local 0) (Local 1) (Local 2) last_entry_state) = Some (Out_Of_Bounds_Read 5)"
proof -
  define s1 where "s1 = snd (size_compute (Local 0) (Local 1) (Local 2) last_entry_state)"
  have h1: "\<not> cache_hit (Local 1) last_entry_state"
    by (simp add: last_entry_state_def caller_def constructed_def cache_hit_def)
  have c: "size_compute (Local 0) (Local 1) (Local 2) last_entry_state =
      (None, last_entry_state\<lparr>locals := (\<lambda>n. if n = 0 then (161, 161) else if n = 1 then (161, 161)
          else if n = 2 then (604, 604) else (0, 0))\<rparr>)"
    by (simp add: last_entry_state_def caller_def constructed_def model_eval fp_eval fun_eq_iff
        cong: let_eval_cong)
  have h2: "size_compute (Local 0) (Local 1) (Local 2) last_entry_state = (None, s1)"
    by (simp only: s1_def c snd_conv)
  have s1: "s1 = last_entry_state\<lparr>locals := (\<lambda>n. if n = 0 then (161, 161) else if n = 1 then (161, 161)
          else if n = 2 then (604, 604) else (0, 0))\<rparr>"
    by (simp only: s1_def c snd_conv)
  have h3: "invalid_scale_factor (Local 1) (Local 2) s1"
    by (simp add: s1 last_entry_state_def caller_def constructed_def model_eval fp_eval
        cong: let_eval_cong)
  have sc: "m_scale s1 = Finite (15 / 4)"
    by (simp add: s1 last_entry_state_def caller_def)
  have h4: "find_closest_scale_factor_index (Finite (15 / 4)) = 4"
    by (simp add: model_eval fp_eval cong: let_eval_cong)
  have len: "length supported_scale_factors = 5"
    by (simp add: supported_values)
  show ?thesis
    using size_fn_next_entry_unchecked[OF h1 h2 h3] h1 h2 h3 h4
    by (simp add: sc len s1_def[symmetric])
qed

text \<open>
  C3. The claim: every engine call that reports a failure is raised as a fatal error, a
  failing set-parameter call inside \<^verbatim>\<open>set_strength\<close> included. The code does not raise
  there: with an engine whose calls fail, \<^verbatim>\<open>set_strength\<close> logs the failure and returns
  normally, the new strength stored. The set-parameter call of \<^verbatim>\<open>resize\<close> for the source
  image, on the same engine, does raise.
\<close>

theorem set_strength_failure_only_logged:
  "set_strength engine_failing (Finite 0) constructed =
     (None, constructed\<lparr>m_dirty := True, m_strength := Finite 0,
                        calls := calls constructed @ [Set_Strength 0],
                        log := [''Failed to set Strength.'']\<rparr>)
   \<and> fst (resize engine_failing 160 90 (constructed\<lparr>m_source := None\<rparr>)) =
       Some (Runtime_Error ''SetImage failed.'')"
  by (simp add: constructed_def engine_failing_def model_eval fp_eval cong: let_eval_cong)

text \<open>
  C4. The claim: for every requested size the negotiated input dimensions, and so the
  dimensions of the input buffers, lie between 160x90 and the upper bound of the scale.
  The code does not keep them there on the path of C1: after the constructor,
  \<^verbatim>\<open>resize(10000, 1)\<close> returns from the cache test with the input size 10000x1, at scale
  1.5 whose upper bound is 1920x1080, and sizes the input buffers to 10000x1. (Where
  \<^verbatim>\<open>size\<close> does calculate, the bounds hold: \<open>calculate_input_size_in_bounds\<close>.)
\<close>

theorem resize_leaves_input_unclamped:
  "fst (resize engine_ok 10000 1 constructed) = None
   \<and> m_scale (snd (resize engine_ok 10000 1 constructed)) = Finite (3 / 2)
   \<and> max_size (Finite (3 / 2)) = (1920, 1080)
   \<and> m_cache_input_size (snd (resize engine_ok 10000 1 constructed)) = (10000, 1)
   \<and> m_input (snd (resize engine_ok 10000 1 constructed)) = Some \<lparr>tex_width = 10000, tex_height = 1\<rparr>
   \<and> m_source (snd (resize engine_ok 10000 1 constructed)) =
       Some \<lparr>width = 10000, height = 1, format = BGR, component = FP32, layout = PLANAR\<rparr>"
  by (simp add: constructed_def engine_ok_def model_eval fp_eval cong: let_eval_cong)

text \<open>
  C5. The claim: in every sizing that negotiation returns, output / input equals the
  returned scale within 1e-5 on both axes. The code returns sizings that do not, on the
  path of C1: after the constructor, \<^verbatim>\<open>resize(1920, 1080)\<close> returns the input size
  1920x1080 with the output size 240x135 at scale 1.5: output / input is 0.125 on both
  axes, which is not 1.5 within the tolerance of lines 210-211.
\<close>

theorem resize_returns_wrong_ratio:
  "fst (resize engine_ok 1920 1080 constructed) = None
   \<and> m_scale (snd (resize engine_ok 1920 1080 constructed)) = Finite (3 / 2)
   \<and> m_cache_input_size (snd (resize engine_ok 1920 1080 constructed)) = (1920, 1080)
   \<and> m_cache_output_size (snd (resize engine_ok 1920 1080 constructed)) = (240, 135)
   \<and> fdiv rnd32 (f32_of_u32 240) (f32_of_u32 1920) = Finite (1 / 8)
   \<and> fdiv rnd32 (f32_of_u32 135) (f32_of_u32 1080) = Finite (1 / 8)
   \<and> \<not> is_close (Finite (1 / 8)) (Finite (3 / 2)) (f32_of_f64 (dlit (1 / 100000)))"
  by (simp add: constructed_def engine_ok_def model_eval fp_eval cong: let_eval_cong)

text \<open>
  C6. The claim is made for every float, and fails for NaN: \<^verbatim>\<open>std::clamp\<close> compares with
  \<^verbatim>\<open><\<close> and so returns NaN (the C++ standard leaves the call undefined, the
  implementations return the argument), every distance to NaN is NaN, no entry replaces
  the initial \<^verbatim>\<open>minimal\<close>, and \<^verbatim>\<open>set_scale\<close> stores 0.0, which is not a supported factor.
\<close>

theorem set_scale_nan_counterexample:
  "scale (snd (set_scale NaN constructed)) = Finite 0 \<and> Finite 0 \<notin> set supported_scale_factors"
  by (simp add: set_scale_def scale_def clamp_float_def find_closest_scale_factor_def
      supported_values FLT_MAX_value fgt_def literal_values Let_def)

text \<open>
  C6, amended. For every float \<open>x\<close> other than NaN (infinities included), \<^verbatim>\<open>set_scale(x)\<close>
  never raises; \<^verbatim>\<open>clamp(x, 1, 4)\<close> is a finite value in [1, 4]; the factor stored is an
  entry of the vector such that every entry listed before it is strictly farther from
  the clamped value and no entry listed after it is nearer (distances are exact, not
  rounded); the dirty flag is set exactly when it was set before or the factor stored
  differs from the previous scale by more than 0.01; and nothing but the flag and the
  scale changes, so no buffer is resized or allocated. \<^verbatim>\<open>set_scale(2.5)\<close> stores 2.0.
\<close>

theorem set_scale_snaps_to_nearest:
  assumes "is_float x" and "x \<noteq> NaN"
  shows "fst (set_scale x s) = None
    \<and> (\<exists>q. clamp_float x (Finite 1) (Finite 4) = Finite q \<and> 1 \<le> q \<and> q \<le> 4)
    \<and> (\<exists>pre post. supported_scale_factors = pre @ scale (snd (set_scale x s)) # post
         \<and> (\<forall>d\<in>set pre. nearer (scale (snd (set_scale x s))) d (clamp_float x (Finite 1) (Finite 4)))
         \<and> (\<forall>d\<in>set post. \<not> nearer d (scale (snd (set_scale x s))) (clamp_float x (Finite 1) (Finite 4))))
    \<and> m_dirty (snd (set_scale x s)) =
        (m_dirty s \<or> \<not> is_close (m_scale s) (scale (snd (set_scale x s))) (flit (1 / 100)))
    \<and> (snd (set_scale x s))\<lparr>m_dirty := m_dirty s, m_scale := m_scale s\<rparr> = s"
proof -
  obtain q where q: "clamp_float x (Finite 1) (Finite 4) = Finite q" "1 \<le> q" "q \<le> 4" "is_float (Finite q)"
    using clamp_float_finite[OF assms] by blast
  have sc: "scale (snd (set_scale x s)) = find_closest_scale_factor (Finite q)"
    by (simp add: set_scale_def scale_def Let_def literal_values q(1))
  have a: "fst (set_scale x s) = None"
    by (simp add: set_scale_def Let_def)
  have d: "m_dirty (snd (set_scale x s)) =
        (m_dirty s \<or> \<not> is_close (m_scale s) (scale (snd (set_scale x s))) (flit (1 / 100)))"
    by (simp add: set_scale_dirty scale_def)
  have e: "(snd (set_scale x s))\<lparr>m_dirty := m_dirty s, m_scale := m_scale s\<rparr> = s"
    by (simp add: set_scale_def Let_def)
  show ?thesis
    using find_closest_scale_factor_nearest[OF q(4,2,3)] q a d e
    by (simp add: sc)
qed

theorem set_scale_snaps_to_nearest_witness:
  "is_float (Finite (5 / 2)) \<and> Finite (5 / 2) \<noteq> NaN
   \<and> fst (set_scale (Finite (5 / 2)) constructed) = None
   \<and> scale (snd (set_scale (Finite (5 / 2)) constructed)) = Finite 2
   \<and> m_dirty (snd (set_scale (Finite (5 / 2)) constructed))
   \<and> m_tmp (snd (set_scale (Finite (5 / 2)) constructed)) = m_tmp constructed"
proof -
  have h1: "is_float (Finite (5 / 2))"
    by (simp add: fp_eval cong: let_eval_cong)
  have h2: "Finite (5 / 2) \<noteq> NaN" by simp
  have v: "scale (snd (set_scale (Finite (5 / 2)) constructed)) = Finite 2"
    by (simp add: constructed_def model_eval fp_eval cong: let_eval_cong)
  have c: "m_scale constructed = Finite (3 / 2)" by (simp add: constructed_def)
  have far: "\<not> is_close (Finite (3 / 2)) (Finite 2) (flit (1 / 100))"
    by (simp add: literal_values)
  have "m_tmp ((snd (set_scale (Finite (5 / 2)) constructed))\<lparr>m_dirty := m_dirty constructed, m_scale := m_scale constructed\<rparr>)
      = m_tmp constructed"
    using set_scale_snaps_to_nearest[OF h1 h2, of constructed] by simp
  then have t: "m_tmp (snd (set_scale (Finite (5 / 2)) constructed)) = m_tmp constructed"
    by simp
  show ?thesis
    using set_scale_snaps_to_nearest[OF h1 h2, of constructed] h1 v far t
    by (simp add: c)
qed

text \<open>
  C7. \<^verbatim>\<open>set_strength\<close> stores 1.0 for an argument \<^verbatim>\<open>>= 0.5\<close> and 0.0 otherwise (for NaN
  as well), and \<^verbatim>\<open>strength()\<close> returns it. It never raises. Afterwards the dirty flag is
  set exactly when it was set before or the value stored differs from the one stored
  before by more than 0.01. A second call with the same argument leaves the dirty flag as
  it finds it (\<open>d\<close>, whatever happened to the flag in between) and the strength as the
  first call stored it; for the argument 0.3 the strength stored is 0.0.
\<close>

theorem set_strength_binarizes:
  "strength (snd (set_strength eng x s)) = (if fge x (Finite (1 / 2)) then Finite 1 else Finite 0)
   \<and> fst (set_strength eng x s) = None
   \<and> m_dirty (snd (set_strength eng x s)) =
       (m_dirty s \<or> \<not> is_close (strength (snd (set_strength eng x s))) (m_strength s) (flit (1 / 100)))
   \<and> m_dirty (snd (set_strength eng2 x ((snd (set_strength eng x s))\<lparr>m_dirty := d\<rparr>))) = d
   \<and> strength (snd (set_strength eng2 x ((snd (set_strength eng x s))\<lparr>m_dirty := d\<rparr>))) =
       strength (snd (set_strength eng x s))
   \<and> strength (snd (set_strength eng (f32_of_f64 (dlit (3 / 10))) s)) = Finite 0"
proof -
  define s1 where "s1 = snd (set_strength eng x s)"
  define b where "b = (if fge x (flit (1 / 2)) then flit 1 else flit 0)"
  have lit: "f32_of_f64 (dlit (3 / 10)) = Finite (5033165 / 16777216)"
    by (simp add: fp_eval cong: let_eval_cong)
  have low: "\<not> fge (Finite (5033165 / 16777216)) (flit (1 / 2))"
    by (simp add: literal_values fge_def)
  have b: "b = (if fge x (Finite (1 / 2)) then Finite 1 else Finite 0)"
    by (simp add: b_def literal_values)
  have close: "is_close b b (flit (1 / 100))"
    by (simp add: b literal_values)
  have 1: "m_strength s1 = b" unfolding s1_def b_def by (rule set_strength_fields)
  have 2: "m_dirty s1 = (m_dirty s \<or> \<not> is_close b (m_strength s) (flit (1 / 100)))"
    unfolding s1_def b_def by (rule set_strength_fields)
  have 3: "m_dirty (snd (set_strength eng2 x (s1\<lparr>m_dirty := d\<rparr>))) = d"
    using close by (simp add: set_strength_fields(3) 1 b_def[symmetric])
  have 4: "m_strength (snd (set_strength eng2 x (s1\<lparr>m_dirty := d\<rparr>))) = b"
    by (simp add: set_strength_fields(2) b_def)
  have 5: "m_strength (snd (set_strength eng (f32_of_f64 (dlit (3 / 10))) s)) = Finite 0"
    using low by (simp add: set_strength_fields(2) lit literal_values)
  show ?thesis
    using 1 2 3 4 5 set_strength_fields(1)[of eng x s]
    by (simp add: strength_def s1_def[symmetric] b[symmetric])
qed

theorem set_strength_binarizes_witness:
  "strength (snd (set_strength engine_ok (f32_of_f64 (dlit (3 / 10))) constructed)) = Finite 0
   \<and> m_dirty (snd (set_strength engine_ok (f32_of_f64 (dlit (3 / 10))) constructed))
   \<and> \<not> m_dirty (snd (set_strength engine_ok (f32_of_f64 (dlit (3 / 10)))
         ((snd (set_strength engine_ok (f32_of_f64 (dlit (3 / 10))) constructed))\<lparr>m_dirty := False\<rparr>)))"
proof -
  have c: "m_strength constructed = Finite 1" "m_dirty constructed = False"
    by (simp_all add: constructed_def)
  have far: "\<not> is_close (Finite 0) (Finite 1) (flit (1 / 100))"
    by (simp add: literal_values)
  have low: "\<not> fge (f32_of_f64 (dlit (3 / 10))) (Finite (1 / 2))"
    by (simp add: fge_def fp_eval cong: let_eval_cong)
  show ?thesis
    using set_strength_binarizes[of engine_ok "f32_of_f64 (dlit (3 / 10))" constructed engine_ok False] far low
    by (simp add: c)
qed

text \<open>
  C8. The scratch buffer \<^verbatim>\<open>_tmp\<close> is allocated by the first \<^verbatim>\<open>resize\<close> that finds it
  missing, with the output size negotiated in that call, as a planar RGBA image of bytes.
  Once it exists, no \<^verbatim>\<open>resize\<close> and no \<^verbatim>\<open>process\<close> changes it, whatever the output size
  becomes and whether or not the call succeeds. Every other buffer fits its size class
  after a \<^verbatim>\<open>resize\<close> that succeeds: the input texture, the float conversion buffer and the
  source have the cached input size; the destination, the byte conversion buffer and the
  output texture have the cached output size.

  More precisely, once the negotiation has returned, \<^verbatim>\<open>resize\<close> leaves each buffer as
  follows, whatever the later steps do. The input texture, the float conversion buffer and
  the source are refitted to the cached input size: allocated if missing, resized if their
  size differs, kept otherwise. The source is bound to the engine when it was refitted,
  and \<^verbatim>\<open>resize\<close> raises if the engine refuses it. Unless that happened, the destination is
  refitted to the cached output size and bound in the same way; unless one of the two
  bindings was refused, the byte conversion buffer and the output texture are refitted to
  the cached output size and \<^verbatim>\<open>resize\<close> returns normally. A buffer behind a refused binding
  is left as it was.
\<close>

theorem tmp_allocated_once:
  "(m_tmp s = Some t \<longrightarrow>
      m_tmp (snd (resize eng w h s)) = Some t \<and> m_tmp (snd (process eng tex s)) = Some t)
   \<and> (m_tmp s = None \<and> fst (resize_size w h s) = None \<longrightarrow>
      m_tmp (snd (resize eng w h s)) =
        Some \<lparr>width = fst (m_cache_output_size (snd (resize_size w h s))),
              height = snd (m_cache_output_size (snd (resize_size w h s))),
              format = RGBA, component = UINT8, layout = PLANAR\<rparr>)
   \<and> (fst (resize eng w h s) = None \<longrightarrow>
      m_cache_output_size (snd (resize eng w h s)) = m_cache_output_size (snd (resize_size w h s))
      \<and> texture_fits (m_input (snd (resize eng w h s))) (m_cache_input_size (snd (resize eng w h s)))
      \<and> image_fits (m_convert_to_fp32 (snd (resize eng w h s))) (m_cache_input_size (snd (resize eng w h s)))
      \<and> image_fits (m_source (snd (resize eng w h s))) (m_cache_input_size (snd (resize eng w h s)))
      \<and> image_fits (m_destination (snd (resize eng w h s))) (m_cache_output_size (snd (resize eng w h s)))
      \<and> image_fits (m_convert_to_u8 (snd (resize eng w h s))) (m_cache_output_size (snd (resize eng w h s)))
      \<and> texture_fits (m_output (snd (resize eng w h s))) (m_cache_output_size (snd (resize eng w h s))))
   \<and> (fst (resize_size w h s) = None \<longrightarrow>
      (let isz = m_cache_input_size (snd (resize_size w h s));
           osz = m_cache_output_size (snd (resize_size w h s));
           src = refit_image BGR FP32 PLANAR isz (m_source s);
           dst = refit_image BGR FP32 PLANAR osz (m_destination s);
           src_ok = (image_fits (m_source s) isz \<or> eng (calls s) (Set_Input_Image_0 src) = SUCCESS);
           dst_ok = (image_fits (m_destination s) osz
                     \<or> eng (if image_fits (m_source s) isz then calls s
                             else calls s @ [Set_Input_Image_0 src]) (Set_Output_Image_0 dst) = SUCCESS);
           r = resize eng w h s
       in m_cache_input_size (snd r) = isz \<and> m_cache_output_size (snd r) = osz
          \<and> m_input (snd r) = Some (refit_texture isz (m_input s))
          \<and> m_convert_to_fp32 (snd r) = Some (refit_image RGBA FP32 PLANAR isz (m_convert_to_fp32 s))
          \<and> m_source (snd r) = Some src
          \<and> m_destination (snd r) = (if src_ok then Some dst else m_destination s)
          \<and> m_convert_to_u8 (snd r) =
              (if src_ok \<and> dst_ok then Some (refit_image RGBA UINT8 INTERLEAVED osz (m_convert_to_u8 s))
               else m_convert_to_u8 s)
          \<and> m_output (snd r) = (if src_ok \<and> dst_ok then Some (refit_texture osz (m_output s)) else m_output s)
          \<and> fst r = (if src_ok \<and> dst_ok then None else Some (Runtime_Error ''SetImage failed.''))))"
proof -
  have "resize eng w h s = (None, snd (resize eng w h s))" if "fst (resize eng w h s) = None"
    using that by (simp add: prod_eq_iff)
  from resize_fits[OF this] have fits: "fst (resize eng w h s) = None \<longrightarrow>
      m_cache_output_size (snd (resize eng w h s)) = m_cache_output_size (snd (resize_size w h s))
      \<and> texture_fits (m_input (snd (resize eng w h s))) (m_cache_input_size (snd (resize eng w h s)))
      \<and> image_fits (m_convert_to_fp32 (snd (resize eng w h s))) (m_cache_input_size (snd (resize eng w h s)))
      \<and> image_fits (m_source (snd (resize eng w h s))) (m_cache_input_size (snd (resize eng w h s)))
      \<and> image_fits (m_destination (snd (resize eng w h s))) (m_cache_output_size (snd (resize eng w h s)))
      \<and> image_fits (m_convert_to_u8 (snd (resize eng w h s))) (m_cache_output_size (snd (resize eng w h s)))
      \<and> texture_fits (m_output (snd (resize eng w h s))) (m_cache_output_size (snd (resize eng w h s)))"
    by auto
  have kept: "m_tmp s = Some t \<longrightarrow>
      m_tmp (snd (resize eng w h s)) = Some t \<and> m_tmp (snd (process eng tex s)) = Some t"
    by (simp add: resize_keeps_tmp process_keeps_tmp)
  have alloc: "m_tmp s = None \<and> fst (resize_size w h s) = None \<longrightarrow>
      m_tmp (snd (resize eng w h s)) =
        Some \<lparr>width = fst (m_cache_output_size (snd (resize_size w h s))),
              height = snd (m_cache_output_size (snd (resize_size w h s))),
              format = RGBA, component = UINT8, layout = PLANAR\<rparr>"
    by (simp add: resize_allocates_tmp)
  show ?thesis
    using kept alloc fits resize_after_size[of w h s eng] by blast
qed


theorem tmp_allocated_once_witness:
  "m_tmp initial = None
   \<and> m_tmp (snd (resize engine_ok 160 90 (initial\<lparr>m_scale := Finite (3 / 2)\<rparr>))) =
       Some \<lparr>width = 240, height = 135, format = RGBA, component = UINT8, layout = PLANAR\<rparr>
   \<and> m_input (snd (resize engine_ok 160 90 (initial\<lparr>m_scale := Finite (3 / 2)\<rparr>))) =
       Some \<lparr>tex_width = 160, tex_height = 90\<rparr>
   \<and> m_source (snd (resize engine_ok 160 90 (initial\<lparr>m_scale := Finite (3 / 2)\<rparr>))) =
       Some \<lparr>width = 160, height = 90, format = BGR, component = FP32, layout = PLANAR\<rparr>
   \<and> m_tmp constructed = Some \<lparr>width = 240, height = 135, format = RGBA, component = UINT8, layout = PLANAR\<rparr>
   \<and> fst (resize engine_ok 160 90 (constructed\<lparr>m_scale := Finite 2\<rparr>)) = None
   \<and> m_cache_output_size (snd (resize engine_ok 160 90 (constructed\<lparr>m_scale := Finite 2\<rparr>))) = (320, 180)
   \<and> image_fits (m_destination (snd (resize engine_ok 160 90 (constructed\<lparr>m_scale := Finite 2\<rparr>)))) (320, 180)
   \<and> m_tmp (snd (resize engine_ok 160 90 (constructed\<lparr>m_scale := Finite 2\<rparr>))) =
       Some \<lparr>width = 240, height = 135, format = RGBA, component = UINT8, layout = PLANAR\<rparr>
   \<and> m_tmp (snd (process engine_ok \<lparr>tex_width = 160, tex_height = 90\<rparr> (constructed\<lparr>m_scale := Finite 2\<rparr>))) =
       Some \<lparr>width = 240, height = 135, format = RGBA, component = UINT8, layout = PLANAR\<rparr>
   \<and> fst (resize engine_ok 200 100 (constructed\<lparr>m_scale := Finite 2\<rparr>)) = None
   \<and> m_input (snd (resize engine_ok 200 100 (constructed\<lparr>m_scale := Finite 2\<rparr>))) =
       Some \<lparr>tex_width = 200, tex_height = 100\<rparr>
   \<and> m_convert_to_fp32 (snd (resize engine_ok 200 100 (constructed\<lparr>m_scale := Finite 2\<rparr>))) =
       Some \<lparr>width = 200, height = 100, format = RGBA, component = FP32, layout = PLANAR\<rparr>
   \<and> m_source (snd (resize engine_ok 200 100 (constructed\<lparr>m_scale := Finite 2\<rparr>))) =
       Some \<lparr>width = 200, height = 100, format = BGR, component = FP32, layout = PLANAR\<rparr>
   \<and> m_destination (snd (resize engine_ok 200 100 (constructed\<lparr>m_scale := Finite 2\<rparr>))) =
       Some \<lparr>width = 400, height = 200, format = BGR, component = FP32, layout = PLANAR\<rparr>
   \<and> m_convert_to_u8 (snd (resize engine_ok 200 100 (constructed\<lparr>m_scale := Finite 2\<rparr>))) =
       Some \<lparr>width = 400, height = 200, format = RGBA, component = UINT8, layout = INTERLEAVED\<rparr>
   \<and> m_output (snd (resize engine_ok 200 100 (constructed\<lparr>m_scale := Finite 2\<rparr>))) =
       Some \<lparr>tex_width = 400, tex_height = 200\<rparr>
   \<and> m_tmp (snd (resize engine_ok 200 100 (constructed\<lparr>m_scale := Finite 2\<rparr>))) =
       Some \<lparr>width = 240, height = 135, format = RGBA, component = UINT8, layout = PLANAR\<rparr>
   \<and> fst (resize engine_failing 200 100 (constructed\<lparr>m_scale := Finite 2\<rparr>)) =
       Some (Runtime_Error ''SetImage failed.'')
   \<and> m_input (snd (resize engine_failing 200 100 (constructed\<lparr>m_scale := Finite 2\<rparr>))) =
       Some \<lparr>tex_width = 200, tex_height = 100\<rparr>
   \<and> m_convert_to_fp32 (snd (resize engine_failing 200 100 (constructed\<lparr>m_scale := Finite 2\<rparr>))) =
       Some \<lparr>width = 200, height = 100, format = RGBA, component = FP32, layout = PLANAR\<rparr>
   \<and> m_source (snd (resize engine_failing 200 100 (constructed\<lparr>m_scale := Finite 2\<rparr>))) =
       Some \<lparr>width = 200, height = 100, format = BGR, component = FP32, layout = PLANAR\<rparr>
   \<and> m_destination (snd (resize engine_failing 200 100 (constructed\<lparr>m_scale := Finite 2\<rparr>))) =
       Some \<lparr>width = 240, height = 135, format = BGR, component = FP32, layout = PLANAR\<rparr>
   \<and> fst (resize engine_output_binding_fails 200 100 (constructed\<lparr>m_scale := Finite 2\<rparr>)) =
       Some (Runtime_Error ''SetImage failed.'')
   \<and> m_destination (snd (resize engine_output_binding_fails 200 100 (constructed\<lparr>m_scale := Finite 2\<rparr>))) =
       Some \<lparr>width = 400, height = 200, format = BGR, component = FP32, layout = PLANAR\<rparr>
   \<and> m_convert_to_u8 (snd (resize engine_output_binding_fails 200 100 (constructed\<lparr>m_scale := Finite 2\<rparr>))) =
       Some \<lparr>width = 240, height = 135, format = RGBA, component = UINT8, layout = INTERLEAVED\<rparr>
   \<and> m_output (snd (resize engine_output_binding_fails 200 100 (constructed\<lparr>m_scale := Finite 2\<rparr>))) =
       Some \<lparr>tex_width = 240, tex_height = 135\<rparr>"
proof -
  let ?t = "\<lparr>width = 240, height = 135, format = RGBA, component = UINT8, layout = PLANAR\<rparr>"
  let ?sa = "initial\<lparr>m_scale := Finite (3 / 2)\<rparr>"
  let ?sb = "constructed\<lparr>m_scale := Finite 2\<rparr>"
  let ?tex = "\<lparr>tex_width = 160, tex_height = 90\<rparr>"
  have a: "m_tmp ?sa = None" "m_tmp initial = None" "m_input ?sa = None" "m_convert_to_fp32 ?sa = None"
    "m_source ?sa = None" "m_destination ?sa = None" "m_convert_to_u8 ?sa = None" "m_output ?sa = None"
    by (simp_all add: initial_def)
  have b: "resize_size 160 90 ?sa =
      (None, initial\<lparr>m_scale := Finite (3 / 2), m_cache_input_size := (160, 90),
          m_cache_output_size := (240, 135), m_cache_scale := Finite (3 / 2)\<rparr>)"
    by (simp add: initial_def model_eval fp_eval cong: let_eval_cong)
  have c: "m_tmp ?sb = Some ?t" "m_tmp constructed = Some ?t"
    "m_input ?sb = Some \<lparr>tex_width = 160, tex_height = 90\<rparr>"
    "m_convert_to_fp32 ?sb = Some \<lparr>width = 160, height = 90, format = RGBA, component = FP32, layout = PLANAR\<rparr>"
    "m_source ?sb = Some \<lparr>width = 160, height = 90, format = BGR, component = FP32, layout = PLANAR\<rparr>"
    "m_destination ?sb = Some \<lparr>width = 240, height = 135, format = BGR, component = FP32, layout = PLANAR\<rparr>"
    "m_convert_to_u8 ?sb = Some \<lparr>width = 240, height = 135, format = RGBA, component = UINT8, layout = INTERLEAVED\<rparr>"
    "m_output ?sb = Some \<lparr>tex_width = 240, tex_height = 135\<rparr>"
    by (simp_all add: constructed_def)
  have d: "resize_size 160 90 ?sb =
      (None, constructed\<lparr>m_scale := Finite 2, m_cache_output_size := (320, 180), m_cache_scale := Finite 2\<rparr>)"
    by (simp add: constructed_def model_eval fp_eval cong: let_eval_cong)
  have d2: "resize_size 200 100 ?sb =
      (None, constructed\<lparr>m_scale := Finite 2, m_cache_input_size := (200, 100),
         m_cache_output_size := (400, 200), m_cache_scale := Finite 2\<rparr>)"
    by (simp add: constructed_def model_eval fp_eval cong: let_eval_cong)
  have e: "fst (resize engine_ok 160 90 ?sb) = None"
    by (simp add: constructed_def engine_ok_def model_eval fp_eval cong: let_eval_cong)
  have g: "engine_ok cs k = SUCCESS" "engine_failing cs k \<noteq> SUCCESS"
    "engine_output_binding_fails cs (Set_Input_Image_0 i) = SUCCESS"
    "engine_output_binding_fails cs (Set_Output_Image_0 i) \<noteq> SUCCESS" for cs k i
    by (simp_all add: engine_ok_def engine_failing_def engine_output_binding_fails_def)
  note ev = a b c d d2 e g Let_def refit_image_def refit_texture_def image_fits_def texture_fits_def
    image_resize_def texture_resize_def
  have 1: "m_tmp (snd (resize engine_ok 160 90 ?sa)) = Some ?t
      \<and> m_input (snd (resize engine_ok 160 90 ?sa)) = Some \<lparr>tex_width = 160, tex_height = 90\<rparr>
      \<and> m_source (snd (resize engine_ok 160 90 ?sa)) =
          Some \<lparr>width = 160, height = 90, format = BGR, component = FP32, layout = PLANAR\<rparr>"
    using tmp_allocated_once[of ?sa ?t engine_ok 160 90 ?tex] by (simp add: ev)
  have 2: "m_cache_output_size (snd (resize engine_ok 160 90 ?sb)) = (320, 180)
      \<and> image_fits (m_destination (snd (resize engine_ok 160 90 ?sb))) (320, 180)
      \<and> m_tmp (snd (resize engine_ok 160 90 ?sb)) = Some ?t
      \<and> m_tmp (snd (process engine_ok ?tex ?sb)) = Some ?t"
    using tmp_allocated_once[of ?sb ?t engine_ok 160 90 ?tex] by (simp add: ev)
  have 3: "fst (resize engine_ok 200 100 ?sb) = None
      \<and> m_input (snd (resize engine_ok 200 100 ?sb)) = Some \<lparr>tex_width = 200, tex_height = 100\<rparr>
      \<and> m_convert_to_fp32 (snd (resize engine_ok 200 100 ?sb)) =
          Some \<lparr>width = 200, height = 100, format = RGBA, component = FP32, layout = PLANAR\<rparr>
      \<and> m_source (snd (resize engine_ok 200 100 ?sb)) =
          Some \<lparr>width = 200, height = 100, format = BGR, component = FP32, layout = PLANAR\<rparr>
      \<and> m_destination (snd (resize engine_ok 200 100 ?sb)) =
          Some \<lparr>width = 400, height = 200, format = BGR, component = FP32, layout = PLANAR\<rparr>
      \<and> m_convert_to_u8 (snd (resize engine_ok 200 100 ?sb)) =
          Some \<lparr>width = 400, height = 200, format = RGBA, component = UINT8, layout = INTERLEAVED\<rparr>
      \<and> m_output (snd (resize engine_ok 200 100 ?sb)) = Some \<lparr>tex_width = 400, tex_height = 200\<rparr>
      \<and> m_tmp (snd (resize engine_ok 200 100 ?sb)) = Some ?t"
    using tmp_allocated_once[of ?sb ?t engine_ok 200 100 ?tex] by (simp add: ev)
  have 4: "fst (resize engine_failing 200 100 ?sb) = Some (Runtime_Error ''SetImage failed.'')
      \<and> m_input (snd (resize engine_failing 200 100 ?sb)) = Some \<lparr>tex_width = 200, tex_height = 100\<rparr>
      \<and> m_convert_to_fp32 (snd (resize engine_failing 200 100 ?sb)) =
          Some \<lparr>width = 200, height = 100, format = RGBA, component = FP32, layout = PLANAR\<rparr>
      \<and> m_source (snd (resize engine_failing 200 100 ?sb)) =
          Some \<lparr>width = 200, height = 100, format = BGR, component = FP32, layout = PLANAR\<rparr>
      \<and> m_destination (snd (resize engine_failing 200 100 ?sb)) =
          Some \<lparr>width = 240, height = 135, format = BGR, component = FP32, layout = PLANAR\<rparr>"
    using tmp_allocated_once[of ?sb ?t engine_failing 200 100 ?tex] by (simp add: ev)
  have 5: "fst (resize engine_output_binding_fails 200 100 ?sb) = Some (Runtime_Error ''SetImage failed.'')
      \<and> m_destination (snd (resize engine_output_binding_fails 200 100 ?sb)) =
          Some \<lparr>width = 400, height = 200, format = BGR, component = FP32, layout = PLANAR\<rparr>
      \<and> m_convert_to_u8 (snd (resize engine_output_binding_fails 200 100 ?sb)) =
          Some \<lparr>width = 240, height = 135, format = RGBA, component = UINT8, layout = INTERLEAVED\<rparr>
      \<and> m_output (snd (resize engine_output_binding_fails 200 100 ?sb)) =
          Some \<lparr>tex_width = 240, tex_height = 135\<rparr>"
    using tmp_allocated_once[of ?sb ?t engine_output_binding_fails 200 100 ?tex] by (simp add: ev)
  show ?thesis
    using 1 2 3 4 5 a(2) c(2) e by simp
qed

text \<open>
  C9. \<^verbatim>\<open>load\<close> raises when the engine's load fails, with the dirty flag as it was, and
  clears the flag when the load succeeds. No other operation clears the flag: the
  setters, \<^verbatim>\<open>size\<close> and \<^verbatim>\<open>resize\<close> leave a set flag set. So when \<^verbatim>\<open>process\<close> finds the
  flag set and its \<^verbatim>\<open>resize\<close> succeeds, it calls the engine's load next; if that fails,
  \<^verbatim>\<open>process\<close> ends with the error of \<^verbatim>\<open>load\<close>, nothing else is called, and the flag is
  still set for the next call.

  A \<^verbatim>\<open>process\<close> that finds the flag set and whose \<^verbatim>\<open>resize\<close> succeeds always calls
  the engine's load right after the calls of \<^verbatim>\<open>resize\<close>, whether that load then succeeds
  or fails, and the flag it leaves is set exactly when the load failed. In general, the
  first call of \<^verbatim>\<open>process\<close> after a successful \<^verbatim>\<open>resize\<close> is the load when the flag is
  set and the copy of the input texture when it is not; and the flag that \<^verbatim>\<open>process\<close>
  leaves is set exactly when it was set after \<^verbatim>\<open>resize\<close> and either \<^verbatim>\<open>resize\<close> raised or
  the load failed.
\<close>

theorem dirty_cleared_only_by_successful_load:
  "(eng (calls s) Effect_Load \<noteq> SUCCESS \<longrightarrow>
      load eng s = (Some (Runtime_Error ''Load failed.''),
                    log_error ''Failed to initialize effect.'' (s\<lparr>calls := calls s @ [Effect_Load]\<rparr>))
      \<and> m_dirty (snd (load eng s)) = m_dirty s)
   \<and> (eng (calls s) Effect_Load = SUCCESS \<longrightarrow>
      fst (load eng s) = None \<and> \<not> m_dirty (snd (load eng s)))
   \<and> (m_dirty s \<longrightarrow>
      m_dirty (snd (set_strength eng x s)) \<and> m_dirty (snd (set_scale x s))
      \<and> m_dirty (snd (size_fn size0 input_size output_size s)) \<and> m_dirty (snd (resize eng w h s)))
   \<and> (m_dirty s \<and> fst (resize eng (tex_width tex) (tex_height tex) s) = None
       \<and> eng (calls (snd (resize eng (tex_width tex) (tex_height tex) s))) Effect_Load \<noteq> SUCCESS \<longrightarrow>
      process eng tex s =
        (Inl (Runtime_Error ''Load failed.''),
         snd (load eng (snd (resize eng (tex_width tex) (tex_height tex) s))))
      \<and> m_dirty (snd (process eng tex s))
      \<and> calls (snd (process eng tex s)) =
          calls (snd (resize eng (tex_width tex) (tex_height tex) s)) @ [Effect_Load])
   \<and> (m_dirty s \<and> fst (resize eng (tex_width tex) (tex_height tex) s) = None \<longrightarrow>
      take (Suc (length (calls (snd (resize eng (tex_width tex) (tex_height tex) s)))))
        (calls (snd (process eng tex s))) =
          calls (snd (resize eng (tex_width tex) (tex_height tex) s)) @ [Effect_Load]
      \<and> m_dirty (snd (process eng tex s)) =
          (eng (calls (snd (resize eng (tex_width tex) (tex_height tex) s))) Effect_Load \<noteq> SUCCESS))
   \<and> (fst (resize eng (tex_width tex) (tex_height tex) s) = None \<longrightarrow>
      take (Suc (length (calls (snd (resize eng (tex_width tex) (tex_height tex) s)))))
        (calls (snd (process eng tex s))) =
          calls (snd (resize eng (tex_width tex) (tex_height tex) s))
          @ [if m_dirty (snd (resize eng (tex_width tex) (tex_height tex) s)) then Effect_Load
             else Copy_Texture])
   \<and> m_dirty (snd (process eng tex s)) =
       (m_dirty (snd (resize eng (tex_width tex) (tex_height tex) s))
        \<and> (fst (resize eng (tex_width tex) (tex_height tex) s) \<noteq> None
           \<or> eng (calls (snd (resize eng (tex_width tex) (tex_height tex) s))) Effect_Load \<noteq> SUCCESS))"
proof -
  define s1 where "s1 = snd (resize eng (tex_width tex) (tex_height tex) s)"
  have A: "eng (calls s) Effect_Load \<noteq> SUCCESS \<Longrightarrow>
      load eng s = (Some (Runtime_Error ''Load failed.''),
                    log_error ''Failed to initialize effect.'' (s\<lparr>calls := calls s @ [Effect_Load]\<rparr>))
      \<and> m_dirty (snd (load eng s)) = m_dirty s"
    by (simp add: load_result log_error_def)
  have B: "eng (calls s) Effect_Load = SUCCESS \<Longrightarrow>
      fst (load eng s) = None \<and> \<not> m_dirty (snd (load eng s))"
    by (simp add: load_result)
  have C: "m_dirty s \<Longrightarrow>
      m_dirty (snd (set_strength eng x s)) \<and> m_dirty (snd (set_scale x s))
      \<and> m_dirty (snd (size_fn size0 input_size output_size s)) \<and> m_dirty (snd (resize eng w h s))"
    by (simp add: set_strength_fields(3) set_scale_dirty size_fn_keeps resize_keeps_dirty)
  have D: "process eng tex s =
        (Inl (Runtime_Error ''Load failed.''), snd (load eng s1))
      \<and> m_dirty (snd (process eng tex s))
      \<and> calls (snd (process eng tex s)) = calls s1 @ [Effect_Load]"
    if d: "m_dirty s" and r: "fst (resize eng (tex_width tex) (tex_height tex) s) = None"
      and l: "eng (calls s1) Effect_Load \<noteq> SUCCESS"
  proof -
    have rs: "resize eng (tex_width tex) (tex_height tex) s = (None, s1)"
      using r by (simp add: s1_def prod_eq_iff)
    have d1: "m_dirty s1" unfolding s1_def using d by (rule resize_keeps_dirty)
    have p: "process eng tex s = (Inl (Runtime_Error ''Load failed.''), snd (load eng s1))"
      using d1 l by (simp add: process_def rs and_then_def reload_if_dirty_def load_result)
    show ?thesis using d1 l by (simp add: p load_result log_error_def)
  qed
  have E: "take (Suc (length (calls s1))) (calls (snd (process eng tex s))) =
          calls s1 @ [if m_dirty s1 then Effect_Load else Copy_Texture]
      \<and> m_dirty (snd (process eng tex s)) = (m_dirty s1 \<and> eng (calls s1) Effect_Load \<noteq> SUCCESS)"
    if r: "fst (resize eng (tex_width tex) (tex_height tex) s) = None"
  proof -
    have rs: "resize eng (tex_width tex) (tex_height tex) s = (None, s1)"
      using r by (simp add: s1_def prod_eq_iff)
    show ?thesis using process_after_resize[OF rs] by simp
  qed
  have F: "m_dirty s \<Longrightarrow> m_dirty s1"
    unfolding s1_def by (rule resize_keeps_dirty)
  have G: "m_dirty (snd (process eng tex s)) = m_dirty s1"
    if "fst (resize eng (tex_width tex) (tex_height tex) s) \<noteq> None"
    using process_resize_raises[OF that] by (simp add: s1_def)
  have H: "m_dirty (snd (process eng tex s)) =
       (m_dirty s1 \<and> (fst (resize eng (tex_width tex) (tex_height tex) s) \<noteq> None
           \<or> eng (calls s1) Effect_Load \<noteq> SUCCESS))"
    using E G by (cases "fst (resize eng (tex_width tex) (tex_height tex) s) = None") auto
  have E1: "m_dirty s \<and> fst (resize eng (tex_width tex) (tex_height tex) s) = None \<longrightarrow>
      take (Suc (length (calls s1))) (calls (snd (process eng tex s))) = calls s1 @ [Effect_Load]
      \<and> m_dirty (snd (process eng tex s)) = (eng (calls s1) Effect_Load \<noteq> SUCCESS)"
    using E F by auto
  have E2: "fst (resize eng (tex_width tex) (tex_height tex) s) = None \<longrightarrow>
      take (Suc (length (calls s1))) (calls (snd (process eng tex s))) =
          calls s1 @ [if m_dirty s1 then Effect_Load else Copy_Texture]"
    using E by auto
  show ?thesis using A B C D E1 E2 H unfolding s1_def by blast
qed

theorem dirty_cleared_only_by_successful_load_witness:
  "m_dirty (constructed\<lparr>m_dirty := True\<rparr>)
   \<and> fst (resize engine_load_fails 160 90 (constructed\<lparr>m_dirty := True\<rparr>)) = None
   \<and> fst (process engine_load_fails \<lparr>tex_width = 160, tex_height = 90\<rparr> (constructed\<lparr>m_dirty := True\<rparr>)) =
       Inl (Runtime_Error ''Load failed.'')
   \<and> m_dirty (snd (process engine_load_fails \<lparr>tex_width = 160, tex_height = 90\<rparr> (constructed\<lparr>m_dirty := True\<rparr>)))
   \<and> calls (snd (process engine_load_fails \<lparr>tex_width = 160, tex_height = 90\<rparr> (constructed\<lparr>m_dirty := True\<rparr>))) =
       calls constructed @ [Effect_Load]
   \<and> fst (resize engine_ok 160 90 (constructed\<lparr>m_dirty := True\<rparr>)) = None
   \<and> take 5 (calls (snd (process engine_ok \<lparr>tex_width = 160, tex_height = 90\<rparr> (constructed\<lparr>m_dirty := True\<rparr>)))) =
       calls constructed @ [Effect_Load]
   \<and> \<not> m_dirty (snd (process engine_ok \<lparr>tex_width = 160, tex_height = 90\<rparr> (constructed\<lparr>m_dirty := True\<rparr>)))
   \<and> \<not> m_dirty constructed
   \<and> take 5 (calls (snd (process engine_ok \<lparr>tex_width = 160, tex_height = 90\<rparr> constructed))) =
       calls constructed @ [Copy_Texture]
   \<and> m_dirty (snd (process engine_load_fails_once \<lparr>tex_width = 160, tex_height = 90\<rparr>
                     (constructed\<lparr>m_dirty := True\<rparr>)))
   \<and> take 6 (calls (snd (process engine_load_fails_once \<lparr>tex_width = 160, tex_height = 90\<rparr>
                 (snd (process engine_load_fails_once \<lparr>tex_width = 160, tex_height = 90\<rparr>
                        (constructed\<lparr>m_dirty := True\<rparr>)))))) =
       calls constructed @ [Effect_Load, Effect_Load]
   \<and> \<not> m_dirty (snd (process engine_load_fails_once \<lparr>tex_width = 160, tex_height = 90\<rparr>
                 (snd (process engine_load_fails_once \<lparr>tex_width = 160, tex_height = 90\<rparr>
                        (constructed\<lparr>m_dirty := True\<rparr>)))))"
proof -
  let ?sd = "constructed\<lparr>m_dirty := True\<rparr>"
  let ?tex = "\<lparr>tex_width = 160, tex_height = 90\<rparr>"
  define s2 where "s2 = log_error ''Failed to initialize effect.'' (?sd\<lparr>calls := calls ?sd @ [Effect_Load]\<rparr>)"
  have r: "resize engine_load_fails 160 90 ?sd = (None, ?sd)"
    by (simp add: constructed_def engine_load_fails_def model_eval fp_eval cong: let_eval_cong)
  have r_ok: "resize engine_ok 160 90 ?sd = (None, ?sd)"
    by (simp add: constructed_def engine_ok_def model_eval fp_eval cong: let_eval_cong)
  have r_clean: "resize engine_ok 160 90 constructed = (None, constructed)"
    by (simp add: constructed_def engine_ok_def model_eval fp_eval cong: let_eval_cong)
  have r_once: "resize engine_load_fails_once 160 90 ?sd = (None, ?sd)"
    by (simp add: constructed_def engine_load_fails_once_def model_eval fp_eval cong: let_eval_cong)
  have r_again: "resize engine_load_fails_once 160 90 s2 = (None, s2)"
    unfolding s2_def
    by (simp add: constructed_def engine_load_fails_once_def model_eval fp_eval cong: let_eval_cong)
  have l: "engine_load_fails cs Effect_Load \<noteq> SUCCESS" "engine_ok cs Effect_Load = SUCCESS" for cs
    by (simp_all add: engine_load_fails_def engine_ok_def)
  have c: "calls ?sd = calls constructed" "length (calls constructed) = 4" "\<not> m_dirty constructed"
    "m_dirty ?sd" "m_dirty s2" "calls s2 = calls constructed @ [Effect_Load]"
    by (simp_all add: s2_def constructed_def log_error_def)
  have once: "engine_load_fails_once (calls constructed) Effect_Load \<noteq> SUCCESS"
    "engine_load_fails_once (calls constructed @ [Effect_Load]) Effect_Load = SUCCESS"
    by (simp_all add: engine_load_fails_once_def constructed_def)
  have 1: "fst (process engine_load_fails ?tex ?sd) = Inl (Runtime_Error ''Load failed.'')
      \<and> m_dirty (snd (process engine_load_fails ?tex ?sd))
      \<and> calls (snd (process engine_load_fails ?tex ?sd)) = calls constructed @ [Effect_Load]"
    using dirty_cleared_only_by_successful_load[of engine_load_fails ?sd _ _ _ _ _ _ ?tex] l
    by (simp add: r log_error_def)
  have 2: "take 5 (calls (snd (process engine_ok ?tex ?sd))) = calls constructed @ [Effect_Load]
      \<and> \<not> m_dirty (snd (process engine_ok ?tex ?sd))"
    using dirty_cleared_only_by_successful_load[of engine_ok ?sd _ _ _ _ _ _ ?tex] l
    by (simp add: r_ok c)
  have 3: "take 5 (calls (snd (process engine_ok ?tex constructed))) = calls constructed @ [Copy_Texture]"
    using dirty_cleared_only_by_successful_load[of engine_ok constructed _ _ _ _ _ _ ?tex] l
    by (simp add: r_clean c)
  have 4: "process engine_load_fails_once ?tex ?sd = (Inl (Runtime_Error ''Load failed.''), s2)"
    using dirty_cleared_only_by_successful_load[of engine_load_fails_once ?sd _ _ _ _ _ _ ?tex] once
    by (simp add: r_once c(1-4) load_result s2_def)
  have 5: "take 6 (calls (snd (process engine_load_fails_once ?tex s2))) =
        calls constructed @ [Effect_Load, Effect_Load]
      \<and> \<not> m_dirty (snd (process engine_load_fails_once ?tex s2))"
    using dirty_cleared_only_by_successful_load[of engine_load_fails_once s2 _ _ _ _ _ _ ?tex] once
    by (simp add: r_again c)
  show ?thesis
    using 1 2 3 5 c(3,4,5) r r_ok unfolding 4 snd_conv by simp
qed

text \<open>
  C10. When the requested width equals the requested height (and is not zero), the
  calculation of the input size takes the branch of the dominant height: the height is
  clamped into [90, max_height], and the width is the clamped height (the aspect ratio is
  exactly 1) clamped into [160, max_width]. So 100x100 becomes 160x100, not 160x160, and
  that is what \<^verbatim>\<open>size\<close> negotiates for a caller that requests 100x100.
\<close>

theorem square_takes_height_branch:
  assumes "n \<noteq> 0" and "rd input_size s = (n, n)"
  shows "calculate_input_size input_size (max_size sc) s =
     (None, wr input_size
              (clamp_u32 (clamp_u32 n min_height (snd (max_size sc))) min_width (fst (max_size sc)),
               clamp_u32 n min_height (snd (max_size sc))) s)"
proof -
  define c where "c = clamp_u32 n min_height (snd (max_size sc))"
  have nz: "(of_nat (unat n) :: rat) \<noteq> 0" using assms(1) by (simp add: unsigned_eq_0_iff)
  have u: "u32_of_long (int (unat c)) = c"
    by (simp add: u32_of_long_def)
  have ar: "fdiv rnd64 (f64_of_u32 n) (f64_of_u32 n) = Finite 1"
    using nz by (simp add: f64_of_u32_exact rnd64_one del: of_nat_unat)
  have r: "rnd64 (of_nat (unat c)) = Finite (of_nat (unat c))"
    using f64_of_u32_exact[of c] by (simp only: f64_of_u32_def)
  have m: "fmul rnd64 (f64_of_u32 c) (Finite 1) = Finite (of_nat (unat c))"
    by (simp add: f64_of_u32_exact r del: of_nat_unat)
  have l: "lround (Finite (of_nat (unat c))) = Some (int (unat c))"
    unfolding c_def by (rule lround_of_nat) (rule clamp_height_small)
  show ?thesis
    using assms(2)
    by (simp add: calculate_input_size_def wr_first_def wr_second_def Let_def ar m l u c_def[symmetric]
        rd_wr wr_wr del: of_nat_unat lround.simps)
qed

theorem square_takes_height_branch_witness:
  "(100 :: u32) \<noteq> 0
   \<and> rd (Local 1) (restore_input_size (Local 0) (Local 1) (caller (100, 100) constructed)) = (100, 100)
   \<and> fst (calculate_input_size (Local 1) (max_size (Finite (3 / 2)))
            (restore_input_size (Local 0) (Local 1) (caller (100, 100) constructed))) = None
   \<and> rd (Local 1) (snd (calculate_input_size (Local 1) (max_size (Finite (3 / 2)))
            (restore_input_size (Local 0) (Local 1) (caller (100, 100) constructed)))) = (160, 100)
   \<and> rd (Local 1) (snd (size_fn (Local 0) (Local 1) (Local 2) (caller (100, 100) constructed))) = (160, 100)"
proof -
  have h1: "(100 :: u32) \<noteq> 0" by simp
  have h2: "rd (Local 1) (restore_input_size (Local 0) (Local 1) (caller (100, 100) constructed)) = (100, 100)"
    by (simp add: restore_input_size_def wr_first_def wr_second_def caller_def Let_def)
  have mx: "max_size (Finite (3 / 2)) = (1920, 1080)"
    by (simp add: model_eval)
  have cl: "clamp_u32 100 min_height 1080 = 100" "clamp_u32 100 min_width 1920 = 160"
    by (simp_all add: clamp_u32_def min_height_def min_width_def)
  have n: "rd (Local 1) (snd (size_fn (Local 0) (Local 1) (Local 2) (caller (100, 100) constructed))) = (160, 100)"
    by (simp add: constructed_def caller_def model_eval fp_eval cong: let_eval_cong)
  show ?thesis
    using square_takes_height_branch[OF h1 h2, of "Finite (3 / 2)"] h2 n
    by (simp add: mx cl)
qed

end
